theory Spec2Isabelle
  imports Main "HOL-Library.Sublist"
begin

section \<open>Conversation data\<close>

text \<open>
  A turn of the conversation is the object
  \<^verbatim>\<open>{ "role": ..., "content": [ { "type": ..., "text": ... }, ... ] }\<close>
  that \<^verbatim>\<open>teamsBot.js\<close> pushes onto the history and sends to the model. A string is a
  sequence of code units. The field \<open>content\<close> is \<open>None\<close> when the object has no
  \<^verbatim>\<open>content\<close> property or when that property is not an array, which is what the guard
  \<^verbatim>\<open>message.content && Array.isArray(message.content)\<close> of the counter tests.
\<close>

record content_part =
  type :: string
  text' :: string

record message =
  role :: string
  content :: "content_part list option"

text \<open>
  The tokenizer (\<^verbatim>\<open>encoding_for_model("gpt-4o")\<close> of the tiktoken package) is not part of
  the repository: it is a parameter of every function that counts. It maps a text to
  its token array.
\<close>

type_synonym encoder = "string \<Rightarrow> nat list"

definition MAX_TOKENS :: int where
  "MAX_TOKENS = 900000"

section \<open>Token counter\<close>

text \<open>
  \<^verbatim>\<open>countTokensInMessage\<close>: the accumulator \<^verbatim>\<open>tokenCount\<close> starts at 0 and the loop over
  \<^verbatim>\<open>message.content\<close> adds \<^verbatim>\<open>tokens.length\<close> for the entries whose type is
  \<^verbatim>\<open>input_text\<close> or \<^verbatim>\<open>output_text\<close>. Counts are JavaScript numbers holding integers
  (far below \<open>2^53\<close>), modelled as \<open>int\<close>.
\<close>

definition countStep :: "encoder \<Rightarrow> int \<Rightarrow> content_part \<Rightarrow> int" where
  "countStep enc tokenCount c =
     (if type c = ''input_text'' \<or> type c = ''output_text''
      then tokenCount + int (length (enc (text' c)))
      else tokenCount)"

definition countTokensInMessage :: "encoder \<Rightarrow> message \<Rightarrow> int" where
  "countTokensInMessage enc m =
     (case content m of
        None \<Rightarrow> 0
      | Some cs \<Rightarrow> foldl (countStep enc) 0 cs)"

definition countTokensInMessages :: "encoder \<Rightarrow> message list \<Rightarrow> int" where
  "countTokensInMessages enc messages =
     foldl (\<lambda>totalTokens m. totalTokens + countTokensInMessage enc m) 0 messages"

definition countTokensInHistory :: "encoder \<Rightarrow> message list \<Rightarrow> int" where
  "countTokensInHistory enc history = countTokensInMessages enc history"

section \<open>History trimmer\<close>

text \<open>
  The \<^verbatim>\<open>while\<close> loop of \<^verbatim>\<open>trimConversationToTokenLimit\<close>: as long as the total is above
  \<^verbatim>\<open>MAX_TOKENS\<close> and at least two turns remain, \<^verbatim>\<open>splice(0, 2)\<close> removes the two oldest
  turns. The logging inside the loop has no effect on the result.
\<close>

function trimLoop :: "encoder \<Rightarrow> int \<Rightarrow> int \<Rightarrow> message list \<Rightarrow> message list" where
  "trimLoop enc systemTokens userTokens trimmedHistory =
     (if systemTokens + userTokens + countTokensInHistory enc trimmedHistory > MAX_TOKENS
         \<and> length trimmedHistory \<ge> 2
      then trimLoop enc systemTokens userTokens (drop 2 trimmedHistory)
      else trimmedHistory)"
  by pat_completeness auto
termination
  by (relation "measure (\<lambda>(enc, s, u, h). length h)") auto

declare trimLoop.simps [simp del]

definition trimConversationToTokenLimit ::
    "encoder \<Rightarrow> message list \<Rightarrow> int \<Rightarrow> int \<Rightarrow> message list" where
  "trimConversationToTokenLimit enc history systemTokens userTokens =
     (if length history = 0 then history
      else
        let currentHistoryTokens = countTokensInHistory enc history;
            totalTokens = systemTokens + userTokens + currentHistoryTokens
        in if totalTokens \<le> MAX_TOKENS then history
           else trimLoop enc systemTokens userTokens history)"

text \<open>
  An encoder for evaluating the model on concrete inputs: one token per code unit.
\<close>

definition unitEncoder :: encoder where
  "unitEncoder s = map of_char s"

definition userTurn :: "string \<Rightarrow> message" where
  "userTurn txt =
     \<lparr>role = ''user'', content = Some [\<lparr>type = ''input_text'', text' = txt\<rparr>]\<rparr>"

definition assistantTurn :: "string \<Rightarrow> message" where
  "assistantTurn txt =
     \<lparr>role = ''assistant'', content = Some [\<lparr>type = ''output_text'', text' = txt\<rparr>]\<rparr>"

section \<open>The trimmer on a store of arrays\<close>

text \<open>
  A JavaScript array is a mutable object that the caller and the callee share. To say
  what \<^verbatim>\<open>trimConversationToTokenLimit\<close> does to the caller's array, the arrays live in a
  store: a reference is an index into the list of the arrays allocated so far. The
  turns inside the arrays are never modified, so they stay values.
\<close>

type_synonym ref = nat
type_synonym store = "message list list"

definition deref :: "store \<Rightarrow> ref \<Rightarrow> message list option" where
  "deref st r = (if r < length st then Some (st ! r) else None)"

text \<open>\<^verbatim>\<open>[...history]\<close>: a new array with the same elements.\<close>

definition spreadCopy :: "store \<Rightarrow> message list \<Rightarrow> ref \<times> store" where
  "spreadCopy st xs = (length st, st @ [xs])"

text \<open>\<^verbatim>\<open>trimmedHistory.splice(0, 2)\<close>: removes the first two elements in place.\<close>

definition splice02 :: "store \<Rightarrow> ref \<Rightarrow> store" where
  "splice02 st r = st[r := drop 2 (st ! r)]"

function trimLoopS :: "encoder \<Rightarrow> int \<Rightarrow> int \<Rightarrow> ref \<Rightarrow> store \<Rightarrow> store" where
  "trimLoopS enc systemTokens userTokens trimmedHistory st =
     (if trimmedHistory < length st
         \<and> systemTokens + userTokens + countTokensInHistory enc (st ! trimmedHistory)
             > MAX_TOKENS
         \<and> length (st ! trimmedHistory) \<ge> 2
      then trimLoopS enc systemTokens userTokens trimmedHistory (splice02 st trimmedHistory)
      else st)"
  by pat_completeness auto
termination
  by (relation "measure (\<lambda>(enc, s, u, r, st). length (st ! r))")
     (auto simp: splice02_def)

declare trimLoopS.simps [simp del]

text \<open>
  The function on the store returns the reference it returns in the source: the
  argument itself on the two early returns, the clone after the loop. The result is
  \<open>None\<close> only for a reference to no array, which JavaScript cannot produce.
\<close>

definition trimConversationToTokenLimitS ::
    "encoder \<Rightarrow> ref \<Rightarrow> int \<Rightarrow> int \<Rightarrow> store \<Rightarrow> (ref \<times> store) option" where
  "trimConversationToTokenLimitS enc history systemTokens userTokens st =
     (case deref st history of
        None \<Rightarrow> None
      | Some h \<Rightarrow>
          if length h = 0 then Some (history, st)
          else
            let currentHistoryTokens = countTokensInHistory enc h;
                totalTokens = systemTokens + userTokens + currentHistoryTokens
            in if totalTokens \<le> MAX_TOKENS then Some (history, st)
               else
                 let (trimmedHistory, st1) = spreadCopy st h
                 in Some (trimmedHistory,
                          trimLoopS enc systemTokens userTokens trimmedHistory st1))"

section \<open>Disclaimer classifier\<close>

text \<open>
  A thrown JavaScript error is a value of type \<open>exn\<close>; a call that can throw returns
  \<open>exn + 'a\<close>, with \<open>Inl\<close> for the throw. An \<^verbatim>\<open>async\<close> function that resolves returns
  \<open>Inr\<close>, one that rejects returns \<open>Inl\<close>.
\<close>

datatype exn = Error string

datatype label = NEEDS_DISCLAIMER | NO_DISCLAIMER_NEEDED

record classification =
  class_label :: label
  explanation :: string

definition promptLines :: "string list" where
  "promptLines =
     [[],
      ''    Analyze the following tax assistant response and determine if it needs a tax '' @
        ''disclaimer.'',
      ''    '',
      ''    Apply these rules:'',
      ''    1. If the response contains specific tax advice, calculations, or references to tax '' @
        ''laws/codes, it NEEDS_DISCLAIMER'',
      ''    2. If the response interprets tax regulations or suggests specific actions related '' @
        ''to taxes, it NEEDS_DISCLAIMER'',
      ''    3. If the response provides numbers, percentages, or dollar amounts related to '' @
        ''taxes, it NEEDS_DISCLAIMER'',
      ''    4. If the response recommends filing methods or specific forms, it NEEDS_DISCLAIMER'',
      ''    5. If the response references or cites information from the U.S. Tax Code, it '' @
        ''NEEDS_DISCLAIMER'',
      ''    6. If the response provides factual information that would typically be sourced '' @
        ''from the internet (such as statistics, dates, rates, or formal definitions), it '' @
        ''NEEDS_DISCLAIMER'',
      ''    7. If the response discusses economic policies, market trends, or business '' @
        ''regulations, even if not directly tax-related, it NEEDS_DISCLAIMER'',
      ''    8. If the response is general conversation, greetings, or clarification questions '' @
        ''without factual content, it does NOT need a disclaimer'',
      ''    '',
      ''    Response to analyze:'']"

text \<open>The template literal \<^verbatim>\<open>prompt\<close> with \<^verbatim>\<open>${text}\<close> filled in.\<close>

definition classifierPrompt :: "string \<Rightarrow> string" where
  "classifierPrompt txt =
     concat (map (\<lambda>l. l @ ''\<newline>'') promptLines) @ ''    '' @ txt @ ''\<newline>    ''"

text \<open>
  \<^verbatim>\<open>classifyTextForDisclaimer\<close>. The Instructor client and its call
  \<^verbatim>\<open>instructor.chat.completions.create\<close> (the request to the model, the validation of the
  answer against the schema, the retries) are outside the repository: \<open>create\<close> maps
  the prompt to the validated result or to the error thrown inside the \<^verbatim>\<open>try\<close> block.
\<close>

definition classifyTextForDisclaimer ::
    "(string \<Rightarrow> exn + classification) \<Rightarrow> string \<Rightarrow> exn + classification" where
  "classifyTextForDisclaimer create txt =
     (case create (classifierPrompt txt) of
        Inr result \<Rightarrow> Inr result
      | Inl error \<Rightarrow>
          Inr \<lparr>class_label = NEEDS_DISCLAIMER,
               explanation = ''Classification failed, defaulting to showing disclaimer for safety''\<rparr>)"

section \<open>History store\<close>

text \<open>
  \<^verbatim>\<open>storageService.js\<close>. The environment variables the service reads, the Node and SDK
  functions it calls, the file system and the blob container it writes to, and the
  failures of those calls are explicit. A variable of the environment is \<open>None\<close> when it
  is not set.
\<close>

record env =
  USE_LOCAL_STORAGE :: "string option"
  RUNNING_ON_AZURE :: "string option"
  AZURE_STORAGE_ACCOUNT_NAME :: "string option"
  AZURE_STORAGE_CONNECTION_STRING :: "string option"

definition truthy :: "string option \<Rightarrow> bool" where
  "truthy v = (case v of None \<Rightarrow> False | Some s \<Rightarrow> s \<noteq> [])"

text \<open>
  What the platform provides: \<^verbatim>\<open>path.join\<close>, \<^verbatim>\<open>__dirname\<close>, \<^verbatim>\<open>os.tmpdir()\<close>,
  \<^verbatim>\<open>JSON.stringify\<close> and \<^verbatim>\<open>JSON.parse\<close>, and the blob service. The two JSON functions are
  taken at the type of histories: \<open>Inl\<close> is the \<^verbatim>\<open>SyntaxError\<close> of a text that does not
  parse, and a text that parses into something other than an array of turns has no
  counterpart here. \<open>blob_stored body n\<close> is the content the service keeps for
  \<^verbatim>\<open>upload(body, n)\<close>, whose second argument the SDK documents as the length of the body
  in bytes.
\<close>

record runtime =
  path_join :: "string list \<Rightarrow> string"
  dirname :: string
  tmpdir :: string
  JSON_stringify :: "message list \<Rightarrow> string"
  JSON_parse :: "string \<Rightarrow> exn + message list"
  blob_stored :: "string \<Rightarrow> nat \<Rightarrow> string"

text \<open>
  The world outside the process: the directories and files of the local file system,
  and the blob container \<^verbatim>\<open>conversation-history\<close> (\<open>None\<close> while it does not exist).
\<close>

record world =
  dirs :: "string set"
  files :: "string \<rightharpoonup> string"
  container :: "(string \<rightharpoonup> string) option"

text \<open>
  Which external calls throw during one call of the service (a permission error, a
  network error, a locked file). \<open>container_exists_throws k\<close> is the check of the
  container made while \<open>k\<close> retries are left.
\<close>

record faults =
  mkdir_throws :: "string \<Rightarrow> bool"
  write_throws :: bool
  read_throws :: bool
  unlink_throws :: bool
  client_throws :: bool
  container_exists_throws :: "nat \<Rightarrow> bool"
  create_throws :: bool
  upload_throws :: bool
  blob_exists_throws :: bool
  download_throws :: bool
  delete_throws :: bool

text \<open>
  The fields of the \<^verbatim>\<open>StorageService\<close> singleton. \<open>containerClient\<close> tells whether the
  field holds a client (it is \<^verbatim>\<open>null\<close> until \<^verbatim>\<open>initialize\<close> obtains one).
\<close>

record service =
  initialized :: bool
  useLocalStorage :: bool
  localStoragePath :: string
  containerClient :: bool

definition existsSync :: "world \<Rightarrow> string \<Rightarrow> bool" where
  "existsSync w p = (p \<in> dirs w \<or> files w p \<noteq> None)"

definition mkdirSync :: "faults \<Rightarrow> world \<Rightarrow> string \<Rightarrow> exn + world" where
  "mkdirSync f w p =
     (if mkdir_throws f p then Inl (Error ''mkdirSync'')
      else Inr (w\<lparr>dirs := insert p (dirs w)\<rparr>))"

definition writeFileSync :: "faults \<Rightarrow> world \<Rightarrow> string \<Rightarrow> string \<Rightarrow> exn + world" where
  "writeFileSync f w p data =
     (if write_throws f then Inl (Error ''writeFileSync'')
      else Inr (w\<lparr>files := (files w)(p \<mapsto> data)\<rparr>))"

definition readFileSync :: "faults \<Rightarrow> world \<Rightarrow> string \<Rightarrow> exn + string" where
  "readFileSync f w p =
     (case files w p of
        None \<Rightarrow> Inl (Error ''readFileSync'')
      | Some data \<Rightarrow> if read_throws f then Inl (Error ''readFileSync'') else Inr data)"

definition unlinkSync :: "faults \<Rightarrow> world \<Rightarrow> string \<Rightarrow> exn + world" where
  "unlinkSync f w p =
     (case files w p of
        None \<Rightarrow> Inl (Error ''unlinkSync'')
      | Some data \<Rightarrow>
          if unlink_throws f then Inl (Error ''unlinkSync'')
          else Inr (w\<lparr>files := (files w)(p := None)\<rparr>))"

definition blobs :: "world \<Rightarrow> (string \<rightharpoonup> string)" where
  "blobs w = (case container w of None \<Rightarrow> Map.empty | Some b \<Rightarrow> b)"

text \<open>\<^verbatim>\<open>initializeLocalStorage\<close>, with its two fallback directories on Azure.\<close>

definition initializeLocalStorage ::
    "runtime \<Rightarrow> env \<Rightarrow> faults \<Rightarrow> service \<Rightarrow> world \<Rightarrow> (exn + unit) \<times> service \<times> world" where
  "initializeLocalStorage rt ev f svc w =
     (if \<not> existsSync w (localStoragePath svc) then
        (case mkdirSync f w (localStoragePath svc) of
           Inr w1 \<Rightarrow> (Inr (), svc, w1)
         | Inl error \<Rightarrow>
             if RUNNING_ON_AZURE ev = Some ''1'' then
               (let svc1 = svc\<lparr>localStoragePath :=
                             path_join rt [''C:'', ''home'', ''site'', ''wwwroot'', ''data'']\<rparr>
                in case mkdirSync f w (localStoragePath svc1) of
                     Inr w1 \<Rightarrow> (Inr (), svc1, w1)
                   | Inl fallbackError \<Rightarrow>
                       (let svc2 = svc1\<lparr>localStoragePath :=
                                     path_join rt [tmpdir rt, ''tax-bot-history'']\<rparr>
                        in case mkdirSync f w (localStoragePath svc2) of
                             Inr w1 \<Rightarrow> (Inr (), svc2, w1)
                           | Inl lastError \<Rightarrow> (Inl lastError, svc2, w)))
             else (Inr (), svc, w))
      else (Inr (), svc, w))"

text \<open>The constructor, run once when the module is loaded.\<close>

definition newStorageService ::
    "runtime \<Rightarrow> env \<Rightarrow> faults \<Rightarrow> world \<Rightarrow> (exn + unit) \<times> service \<times> world" where
  "newStorageService rt ev f w =
     (let svc = \<lparr>initialized = False,
                 useLocalStorage = (USE_LOCAL_STORAGE ev = Some ''true''),
                 localStoragePath =
                   (if RUNNING_ON_AZURE ev = Some ''1''
                    then path_join rt [''D:'', ''home'', ''LogFiles'', ''conversation-history'']
                    else path_join rt [dirname rt, ''history'']),
                 containerClient = False\<rparr>
      in if useLocalStorage svc then initializeLocalStorage rt ev f svc w
         else (Inr (), svc, w))"

text \<open>
  The retry loop around \<^verbatim>\<open>containerClient.exists()\<close>: it runs while \<^verbatim>\<open>retries > 0\<close>, leaves
  at the first check that answers, and rethrows when the last retry is used up.
\<close>

fun existsWithRetries :: "faults \<Rightarrow> world \<Rightarrow> nat \<Rightarrow> exn + bool" where
  "existsWithRetries f w 0 = Inr False"
| "existsWithRetries f w (Suc n) =
     (if container_exists_throws f (Suc n)
      then (if n = 0 then Inl (Error ''exists'') else existsWithRetries f w n)
      else Inr (container w \<noteq> None))"

text \<open>
  The \<^verbatim>\<open>try\<close> block of \<^verbatim>\<open>initialize\<close>: create the service client (with the managed
  identity on Azure, else from the connection string, else throw), get the container
  client, check the container with retries, create it when it is missing.
\<close>

definition getContainer ::
    "faults \<Rightarrow> service \<Rightarrow> world \<Rightarrow> (exn + unit) \<times> service \<times> world" where
  "getContainer f svc w =
     (if client_throws f then (Inl (Error ''BlobServiceClient''), svc, w)
      else
        let svc1 = svc\<lparr>containerClient := True\<rparr>
        in case existsWithRetries f w 3 of
             Inl error \<Rightarrow> (Inl error, svc1, w)
           | Inr containerExists \<Rightarrow>
               if \<not> containerExists then
                 (if create_throws f then (Inl (Error ''create''), svc1, w)
                  else (Inr (), svc1, w\<lparr>container := Some Map.empty\<rparr>))
               else (Inr (), svc1, w))"

definition connectAzure ::
    "env \<Rightarrow> faults \<Rightarrow> service \<Rightarrow> world \<Rightarrow> (exn + unit) \<times> service \<times> world" where
  "connectAzure ev f svc w =
     (if RUNNING_ON_AZURE ev = Some ''1'' \<and> truthy (AZURE_STORAGE_ACCOUNT_NAME ev)
      then getContainer f svc w
      else if truthy (AZURE_STORAGE_CONNECTION_STRING ev)
      then getContainer f svc w
      else (Inl (Error
         (''No Azure Storage configuration found. Set AZURE_STORAGE_ACCOUNT_NAME or '' @
           ''AZURE_STORAGE_CONNECTION_STRING.'')),
         svc, w))"

definition initialize ::
    "runtime \<Rightarrow> env \<Rightarrow> faults \<Rightarrow> service \<Rightarrow> world \<Rightarrow> (exn + unit) \<times> service \<times> world" where
  "initialize rt ev f svc w =
     (if initialized svc then (Inr (), svc, w)
      else if useLocalStorage svc then (Inr (), svc\<lparr>initialized := True\<rparr>, w)
      else
        (case connectAzure ev f svc w of
           (Inr u, svc1, w1) \<Rightarrow> (Inr (), svc1\<lparr>initialized := True\<rparr>, w1)
         | (Inl error, svc1, w1) \<Rightarrow>
             initializeLocalStorage rt ev f
               (svc1\<lparr>useLocalStorage := True, initialized := True\<rparr>) w1))"

text \<open>
  The blob client calls. \<^verbatim>\<open>this.containerClient.getBlockBlobClient(blobName)\<close> throws a
  \<^verbatim>\<open>TypeError\<close> while the container client is \<^verbatim>\<open>null\<close>; the client it returns stands
  for the blob of that name. \<^verbatim>\<open>upload(content, content.length, ...)\<close> fails when the
  container is missing; \<^verbatim>\<open>exists\<close> answers false for a missing blob or container;
  \<^verbatim>\<open>download\<close> fails for a missing blob; \<^verbatim>\<open>deleteIfExists\<close> removes the blob if it is
  there and fails when the container is missing.
\<close>

definition getBlockBlobClient :: "service \<Rightarrow> string \<Rightarrow> exn + string" where
  "getBlockBlobClient svc blobName =
     (if containerClient svc then Inr blobName else Inl (Error ''TypeError''))"

definition upload ::
    "runtime \<Rightarrow> faults \<Rightarrow> world \<Rightarrow> string \<Rightarrow> string \<Rightarrow> nat \<Rightarrow> exn + world" where
  "upload rt f w blockBlobClient body contentLength =
     (case container w of
        None \<Rightarrow> Inl (Error ''ContainerNotFound'')
      | Some b \<Rightarrow>
          if upload_throws f then Inl (Error ''upload'')
          else Inr (w\<lparr>container :=
                         Some (b(blockBlobClient \<mapsto> blob_stored rt body contentLength))\<rparr>))"

definition blobExists :: "faults \<Rightarrow> world \<Rightarrow> string \<Rightarrow> exn + bool" where
  "blobExists f w blockBlobClient =
     (if blob_exists_throws f then Inl (Error ''exists'')
      else Inr (blobs w blockBlobClient \<noteq> None))"

definition download :: "faults \<Rightarrow> world \<Rightarrow> string \<Rightarrow> exn + string" where
  "download f w blockBlobClient =
     (case blobs w blockBlobClient of
        None \<Rightarrow> Inl (Error ''BlobNotFound'')
      | Some data \<Rightarrow> if download_throws f then Inl (Error ''download'') else Inr data)"

definition deleteIfExists :: "faults \<Rightarrow> world \<Rightarrow> string \<Rightarrow> exn + world" where
  "deleteIfExists f w blockBlobClient =
     (case container w of
        None \<Rightarrow> Inl (Error ''ContainerNotFound'')
      | Some b \<Rightarrow>
          if delete_throws f then Inl (Error ''deleteIfExists'')
          else Inr (w\<lparr>container := Some (b(blockBlobClient := None))\<rparr>))"

text \<open>
  \<^verbatim>\<open>saveConversationHistory\<close>: \<^verbatim>\<open>initialize\<close> is awaited outside the \<^verbatim>\<open>try\<close> block, so its
  rejection propagates; an error of the write is logged and swallowed.
\<close>

definition saveConversationHistory ::
    "runtime \<Rightarrow> env \<Rightarrow> faults \<Rightarrow> string \<Rightarrow> message list \<Rightarrow> service \<Rightarrow> world
     \<Rightarrow> (exn + unit) \<times> service \<times> world" where
  "saveConversationHistory rt ev f conversationId history svc0 w0 =
     (case initialize rt ev f svc0 w0 of
        (Inl error, svc, w) \<Rightarrow> (Inl error, svc, w)
      | (Inr u, svc, w) \<Rightarrow>
          let fileContent = JSON_stringify rt history
          in if useLocalStorage svc then
               (let filePath = path_join rt [localStoragePath svc, conversationId @ ''.json'']
                in case writeFileSync f w filePath fileContent of
                     Inr w1 \<Rightarrow> (Inr (), svc, w1)
                   | Inl error \<Rightarrow> (Inr (), svc, w))
             else
               (let blobName = conversationId @ ''.json''
                in case getBlockBlobClient svc blobName of
                     Inl error \<Rightarrow> (Inr (), svc, w)
                   | Inr blockBlobClient \<Rightarrow>
                       (case upload rt f w blockBlobClient fileContent
                               (length fileContent) of
                          Inr w1 \<Rightarrow> (Inr (), svc, w1)
                        | Inl error \<Rightarrow> (Inr (), svc, w))))"

text \<open>
  The first half of the \<^verbatim>\<open>try\<close> block of \<^verbatim>\<open>loadConversationHistory\<close>: the variable
  \<^verbatim>\<open>content\<close> of the source, here \<open>fileContent\<close>, is \<open>None\<close> (\<^verbatim>\<open>undefined\<close>) when no file
  or blob exists.
\<close>

definition readContent ::
    "runtime \<Rightarrow> faults \<Rightarrow> string \<Rightarrow> service \<Rightarrow> world \<Rightarrow> exn + string option" where
  "readContent rt f conversationId svc w =
     (if useLocalStorage svc then
        (let filePath = path_join rt [localStoragePath svc, conversationId @ ''.json'']
         in if existsSync w filePath then
              (case readFileSync f w filePath of
                 Inl error \<Rightarrow> Inl error
               | Inr data \<Rightarrow> Inr (Some data))
            else Inr None)
      else
        (let blobName = conversationId @ ''.json''
         in case getBlockBlobClient svc blobName of
              Inl error \<Rightarrow> Inl error
            | Inr blockBlobClient \<Rightarrow>
                (case blobExists f w blockBlobClient of
                   Inl error \<Rightarrow> Inl error
                 | Inr exists \<Rightarrow>
                     if exists then
                       (case download f w blockBlobClient of
                          Inl error \<Rightarrow> Inl error
                        | Inr data \<Rightarrow> Inr (Some data))
                     else Inr None)))"

text \<open>
  \<^verbatim>\<open>loadConversationHistory\<close>: \<^verbatim>\<open>content ? JSON.parse(content) : []\<close>, where the empty
  string is falsy as \<^verbatim>\<open>undefined\<close> is, and the \<^verbatim>\<open>catch\<close> block returns \<^verbatim>\<open>[]\<close>.
\<close>

definition loadConversationHistory ::
    "runtime \<Rightarrow> env \<Rightarrow> faults \<Rightarrow> string \<Rightarrow> service \<Rightarrow> world
     \<Rightarrow> (exn + message list) \<times> service \<times> world" where
  "loadConversationHistory rt ev f conversationId svc0 w0 =
     (case initialize rt ev f svc0 w0 of
        (Inl error, svc, w) \<Rightarrow> (Inl error, svc, w)
      | (Inr u, svc, w) \<Rightarrow>
          (case readContent rt f conversationId svc w of
             Inl error \<Rightarrow> (Inr [], svc, w)
           | Inr fileContent \<Rightarrow>
               (case fileContent of
                  None \<Rightarrow> (Inr [], svc, w)
                | Some c \<Rightarrow>
                    if c = [] then (Inr [], svc, w)
                    else (case JSON_parse rt c of
                            Inl error \<Rightarrow> (Inr [], svc, w)
                          | Inr history \<Rightarrow> (Inr history, svc, w)))))"

definition deleteConversationHistory ::
    "runtime \<Rightarrow> env \<Rightarrow> faults \<Rightarrow> string \<Rightarrow> service \<Rightarrow> world
     \<Rightarrow> (exn + unit) \<times> service \<times> world" where
  "deleteConversationHistory rt ev f conversationId svc0 w0 =
     (case initialize rt ev f svc0 w0 of
        (Inl error, svc, w) \<Rightarrow> (Inl error, svc, w)
      | (Inr u, svc, w) \<Rightarrow>
          if useLocalStorage svc then
            (let filePath = path_join rt [localStoragePath svc, conversationId @ ''.json'']
             in if existsSync w filePath then
                  (case unlinkSync f w filePath of
                     Inr w1 \<Rightarrow> (Inr (), svc, w1)
                   | Inl error \<Rightarrow> (Inr (), svc, w))
                else (Inr (), svc, w))
          else
            (let blobName = conversationId @ ''.json''
             in case getBlockBlobClient svc blobName of
                  Inl error \<Rightarrow> (Inr (), svc, w)
                | Inr blockBlobClient \<Rightarrow>
                    (case deleteIfExists f w blockBlobClient of
                       Inr w1 \<Rightarrow> (Inr (), svc, w1)
                     | Inl error \<Rightarrow> (Inr (), svc, w))))"

section \<open>JSON text\<close>

text \<open>
  \<^verbatim>\<open>JSON.stringify\<close> and \<^verbatim>\<open>JSON.parse\<close> belong to the language, not to the repository. This
  section models them after ECMAScript and RFC 8259, on code units of eight bits: the
  printer on histories, the parser on any text. A number is kept as its lexeme.
\<close>

datatype json =
    JNull
  | JBool bool
  | JNumber string
  | JString string
  | JArray "json list"
  | JObject "(string \<times> json) list"

text \<open>
  \<^verbatim>\<open>QuoteJSONString\<close>: the quotation mark and the reverse solidus are escaped, the control
  characters print as \<^verbatim>\<open>\b \t \n \f \r\<close> or as \<^verbatim>\<open>\u00XX\<close> with lowercase digits, every other
  code unit prints as itself.
\<close>

definition hexDigit :: "nat \<Rightarrow> char" where
  "hexDigit n = ''0123456789abcdef'' ! n"

definition quoteUnit :: "char \<Rightarrow> string" where
  "quoteUnit c =
     (if c = CHR 0x22 then [CHR 0x5C, CHR 0x22]
      else if c = CHR 0x5C then [CHR 0x5C, CHR 0x5C]
      else if c = CHR 0x08 then [CHR 0x5C, CHR ''b'']
      else if c = CHR 0x09 then [CHR 0x5C, CHR ''t'']
      else if c = CHR 0x0A then [CHR 0x5C, CHR ''n'']
      else if c = CHR 0x0C then [CHR 0x5C, CHR ''f'']
      else if c = CHR 0x0D then [CHR 0x5C, CHR ''r'']
      else if of_char c < (32::nat)
      then [CHR 0x5C, CHR ''u'', CHR ''0'', CHR ''0'',
            hexDigit (of_char c div 16), hexDigit (of_char c mod 16)]
      else [c])"

definition quoteBody :: "string \<Rightarrow> string" where
  "quoteBody s = concat (map quoteUnit s)"

definition quoteJSONString :: "string \<Rightarrow> string" where
  "quoteJSONString s = CHR 0x22 # quoteBody s @ [CHR 0x22]"

text \<open>
  Objects and arrays print without white space, the members and elements separated by
  commas, the properties in the order of their creation: \<^verbatim>\<open>role\<close> before \<^verbatim>\<open>content\<close>,
  \<^verbatim>\<open>type\<close> before \<^verbatim>\<open>text\<close>. A turn without a content array prints its role only.
\<close>

fun commaSep :: "string list \<Rightarrow> string" where
  "commaSep [] = []"
| "commaSep [x] = x"
| "commaSep (x # y # ys) = x @ CHR '','' # commaSep (y # ys)"

definition memberText :: "string \<Rightarrow> string \<Rightarrow> string" where
  "memberText k v = quoteJSONString k @ CHR '':'' # v"

definition objectText :: "string list \<Rightarrow> string" where
  "objectText ms = CHR ''{'' # commaSep ms @ [CHR ''}'']"

definition arrayText :: "string list \<Rightarrow> string" where
  "arrayText vs = CHR ''['' # commaSep vs @ [CHR '']'']"

definition stringifyPart :: "content_part \<Rightarrow> string" where
  "stringifyPart p =
     objectText [memberText ''type'' (quoteJSONString (type p)),
             memberText ''text'' (quoteJSONString (text' p))]"

definition stringifyMessage :: "message \<Rightarrow> string" where
  "stringifyMessage m =
     objectText (memberText ''role'' (quoteJSONString (role m)) #
             (case content m of
                None \<Rightarrow> []
              | Some cs \<Rightarrow> [memberText ''content'' (arrayText (map stringifyPart cs))]))"

definition stringifyHistory :: "message list \<Rightarrow> string" where
  "stringifyHistory h = arrayText (map stringifyMessage h)"

text \<open>
  The parser. White space is space, tab, line feed and carriage return. Inside a
  string, after the opening quotation mark: the escapes of the grammar, no raw control
  character; an escape \<^verbatim>\<open>\uXXXX\<close> beyond eight bits has no code unit here and is refused.
\<close>

definition isWs :: "char \<Rightarrow> bool" where
  "isWs c = (c = CHR '' '' \<or> c = CHR 0x09 \<or> c = CHR 0x0A \<or> c = CHR 0x0D)"

fun skipWs :: "string \<Rightarrow> string" where
  "skipWs [] = []"
| "skipWs (c # cs) = (if isWs c then skipWs cs else c # cs)"

definition hexValue :: "char \<Rightarrow> nat option" where
  "hexValue c =
     (let n = (of_char c :: nat)
      in if 48 \<le> n \<and> n \<le> 57 then Some (n - 48)
         else if 97 \<le> n \<and> n \<le> 102 then Some (n - 87)
         else if 65 \<le> n \<and> n \<le> 70 then Some (n - 55)
         else None)"

definition codeUnit :: "char \<Rightarrow> char \<Rightarrow> char \<Rightarrow> char \<Rightarrow> char option" where
  "codeUnit h1 h2 h3 h4 =
     (case (hexValue h1, hexValue h2, hexValue h3, hexValue h4) of
        (Some a, Some b, Some c, Some d) \<Rightarrow>
          (let n = ((a * 16 + b) * 16 + c) * 16 + d
           in if n < 256 then Some (char_of n) else None)
      | _ \<Rightarrow> None)"

definition unescape :: "char \<Rightarrow> char option" where
  "unescape e =
     (if e = CHR 0x22 then Some (CHR 0x22)
      else if e = CHR 0x5C then Some (CHR 0x5C)
      else if e = CHR ''/'' then Some (CHR ''/'')
      else if e = CHR ''b'' then Some (CHR 0x08)
      else if e = CHR ''f'' then Some (CHR 0x0C)
      else if e = CHR ''n'' then Some (CHR 0x0A)
      else if e = CHR ''r'' then Some (CHR 0x0D)
      else if e = CHR ''t'' then Some (CHR 0x09)
      else None)"

fun parseChars :: "string \<Rightarrow> (string \<times> string) option" where
  "parseChars [] = None"
| "parseChars (c # cs) =
     (if c = CHR 0x22 then Some ([], cs)
      else if c = CHR 0x5C then
        (case cs of
           [] \<Rightarrow> None
         | e # r \<Rightarrow>
             if e = CHR ''u'' then
               (case r of
                  h1 # h2 # h3 # h4 # r4 \<Rightarrow>
                    (case codeUnit h1 h2 h3 h4 of
                       None \<Rightarrow> None
                     | Some u \<Rightarrow>
                         (case parseChars r4 of
                            None \<Rightarrow> None
                          | Some (s, rest) \<Rightarrow> Some (u # s, rest)))
                | _ \<Rightarrow> None)
             else
               (case unescape e of
                  None \<Rightarrow> None
                | Some u \<Rightarrow>
                    (case parseChars r of
                       None \<Rightarrow> None
                     | Some (s, rest) \<Rightarrow> Some (u # s, rest))))
      else if of_char c < (32::nat) then None
      else
        (case parseChars cs of
           None \<Rightarrow> None
         | Some (s, rest) \<Rightarrow> Some (c # s, rest)))"

text \<open>
  A number: an optional minus, an integer part without a leading zero, an optional
  fraction, an optional exponent.
\<close>

definition isDigit :: "char \<Rightarrow> bool" where
  "isDigit c = (48 \<le> (of_char c :: nat) \<and> (of_char c :: nat) \<le> 57)"

definition takeInt :: "string \<Rightarrow> (string \<times> string) option" where
  "takeInt s =
     (case s of
        [] \<Rightarrow> None
      | c # cs \<Rightarrow>
          if c = CHR ''0'' then Some ([c], cs)
          else if isDigit c then Some (takeWhile isDigit s, dropWhile isDigit s)
          else None)"

definition takeFrac :: "string \<Rightarrow> (string \<times> string) option" where
  "takeFrac s =
     (case s of
        [] \<Rightarrow> Some ([], s)
      | c # cs \<Rightarrow>
          if c = CHR ''.'' then
            (if takeWhile isDigit cs = [] then None
             else Some (c # takeWhile isDigit cs, dropWhile isDigit cs))
          else Some ([], s))"

definition takeSign :: "string \<Rightarrow> string \<times> string" where
  "takeSign s =
     (case s of
        [] \<Rightarrow> ([], s)
      | c # cs \<Rightarrow> if c = CHR ''+'' \<or> c = CHR ''-'' then ([c], cs) else ([], s))"

definition takeExp :: "string \<Rightarrow> (string \<times> string) option" where
  "takeExp s =
     (case s of
        [] \<Rightarrow> Some ([], s)
      | c # cs \<Rightarrow>
          if c = CHR ''e'' \<or> c = CHR ''E'' then
            (case takeSign cs of
               (sg, r) \<Rightarrow>
                 if takeWhile isDigit r = [] then None
                 else Some (c # sg @ takeWhile isDigit r, dropWhile isDigit r))
          else Some ([], s))"

definition parseNumber :: "string \<Rightarrow> (string \<times> string) option" where
  "parseNumber s =
     (case (case s of
              [] \<Rightarrow> ([], s)
            | c # cs \<Rightarrow> if c = CHR ''-'' then ([c], cs) else ([], s)) of
        (neg, s1) \<Rightarrow>
          (case takeInt s1 of
             None \<Rightarrow> None
           | Some (ip, s2) \<Rightarrow>
               (case takeFrac s2 of
                  None \<Rightarrow> None
                | Some (fp, s3) \<Rightarrow>
                    (case takeExp s3 of
                       None \<Rightarrow> None
                     | Some (ep, s4) \<Rightarrow> Some (neg @ ip @ fp @ ep, s4)))))"

text \<open>
  Values, the elements of an array after its opening bracket, and the members of an
  object after its opening brace. The first argument bounds the depth of the calls;
  \<open>parseJSON\<close> starts with twice the length of the text, and a text written by the
  printer needs no more than its own length.
\<close>

fun parseValue :: "nat \<Rightarrow> string \<Rightarrow> (json \<times> string) option"
  and parseElements :: "nat \<Rightarrow> string \<Rightarrow> (json list \<times> string) option"
  and parseMembers :: "nat \<Rightarrow> string \<Rightarrow> ((string \<times> json) list \<times> string) option" where
  "parseValue 0 s = None"
| "parseValue (Suc n) s =
     (case skipWs s of
        [] \<Rightarrow> None
      | c # cs \<Rightarrow>
          if c = CHR 0x22 then
            (case parseChars cs of
               None \<Rightarrow> None
             | Some (x, r) \<Rightarrow> Some (JString x, r))
          else if c = CHR ''['' then
            (case skipWs cs of
               [] \<Rightarrow> None
             | d # ds \<Rightarrow>
                 if d = CHR '']'' then Some (JArray [], ds)
                 else
                   (case parseElements n cs of
                      None \<Rightarrow> None
                    | Some (vs, r) \<Rightarrow> Some (JArray vs, r)))
          else if c = CHR ''{'' then
            (case skipWs cs of
               [] \<Rightarrow> None
             | d # ds \<Rightarrow>
                 if d = CHR ''}'' then Some (JObject [], ds)
                 else
                   (case parseMembers n cs of
                      None \<Rightarrow> None
                    | Some (kvs, r) \<Rightarrow> Some (JObject kvs, r)))
          else if take 4 (c # cs) = ''true'' then Some (JBool True, drop 4 (c # cs))
          else if take 5 (c # cs) = ''false'' then Some (JBool False, drop 5 (c # cs))
          else if take 4 (c # cs) = ''null'' then Some (JNull, drop 4 (c # cs))
          else
            (case parseNumber (c # cs) of
               None \<Rightarrow> None
             | Some (lexeme, r) \<Rightarrow> Some (JNumber lexeme, r)))"
| "parseElements 0 s = None"
| "parseElements (Suc n) s =
     (case parseValue n s of
        None \<Rightarrow> None
      | Some (v, r) \<Rightarrow>
          (case skipWs r of
             [] \<Rightarrow> None
           | c # cs \<Rightarrow>
               if c = CHR '','' then
                 (case parseElements n cs of
                    None \<Rightarrow> None
                  | Some (vs, r1) \<Rightarrow> Some (v # vs, r1))
               else if c = CHR '']'' then Some ([v], cs)
               else None))"
| "parseMembers 0 s = None"
| "parseMembers (Suc n) s =
     (case skipWs s of
        [] \<Rightarrow> None
      | q # cs \<Rightarrow>
          if q = CHR 0x22 then
            (case parseChars cs of
               None \<Rightarrow> None
             | Some (k, r) \<Rightarrow>
                 (case skipWs r of
                    [] \<Rightarrow> None
                  | c # r1 \<Rightarrow>
                      if c = CHR '':'' then
                        (case parseValue n r1 of
                           None \<Rightarrow> None
                         | Some (v, r2) \<Rightarrow>
                             (case skipWs r2 of
                                [] \<Rightarrow> None
                              | d # r3 \<Rightarrow>
                                  if d = CHR '','' then
                                    (case parseMembers n r3 of
                                       None \<Rightarrow> None
                                     | Some (kvs, r4) \<Rightarrow> Some ((k, v) # kvs, r4))
                                  else if d = CHR ''}'' then Some ([(k, v)], r3)
                                  else None))
                      else None))
          else None)"

definition parseJSON :: "string \<Rightarrow> exn + json" where
  "parseJSON s =
     (case parseValue (2 * length s + 2) s of
        None \<Rightarrow> Inl (Error ''SyntaxError'')
      | Some (v, r) \<Rightarrow>
          if skipWs r = [] then Inr v else Inl (Error ''SyntaxError''))"

text \<open>
  The history a JSON value stands for: an array of objects with a string \<^verbatim>\<open>role\<close> and,
  optionally, an array \<^verbatim>\<open>content\<close> of objects with the strings \<^verbatim>\<open>type\<close> and \<^verbatim>\<open>text\<close>, and no
  other property. A repeated property keeps its last value, as in JavaScript.
\<close>

definition propertyOf :: "(string \<times> json) list \<Rightarrow> string \<Rightarrow> json option" where
  "propertyOf kvs k = map_of (rev kvs) k"

definition partOfJson :: "json \<Rightarrow> content_part option" where
  "partOfJson v =
     (case v of
        JObject kvs \<Rightarrow>
          if list_all (\<lambda>kv. fst kv = ''type'' \<or> fst kv = ''text'') kvs then
            (case (propertyOf kvs ''type'', propertyOf kvs ''text'') of
               (Some (JString t), Some (JString x)) \<Rightarrow> Some \<lparr>type = t, text' = x\<rparr>
             | _ \<Rightarrow> None)
          else None
      | _ \<Rightarrow> None)"

definition messageOfJson :: "json \<Rightarrow> message option" where
  "messageOfJson v =
     (case v of
        JObject kvs \<Rightarrow>
          if list_all (\<lambda>kv. fst kv = ''role'' \<or> fst kv = ''content'') kvs then
            (case propertyOf kvs ''role'' of
               Some (JString r) \<Rightarrow>
                 (case propertyOf kvs ''content'' of
                    None \<Rightarrow> Some \<lparr>role = r, content = None\<rparr>
                  | Some (JArray vs) \<Rightarrow>
                      (case those (map partOfJson vs) of
                         None \<Rightarrow> None
                       | Some cs \<Rightarrow> Some \<lparr>role = r, content = Some cs\<rparr>)
                  | Some other \<Rightarrow> None)
             | _ \<Rightarrow> None)
          else None
      | _ \<Rightarrow> None)"

definition historyOfJson :: "json \<Rightarrow> message list option" where
  "historyOfJson v =
     (case v of
        JArray vs \<Rightarrow> those (map messageOfJson vs)
      | _ \<Rightarrow> None)"

text \<open>
  \<^verbatim>\<open>JSON.parse\<close> at the type of histories. A text that parses into a value that is not a
  history has no counterpart at this type and is reported as \<open>Inl\<close>; what is proved
  below reads only texts that the printer wrote.
\<close>

definition parseHistory :: "string \<Rightarrow> exn + message list" where
  "parseHistory s =
     (case parseJSON s of
        Inl error \<Rightarrow> Inl error
      | Inr v \<Rightarrow>
          (case historyOfJson v of
             None \<Rightarrow> Inl (Error ''not a history'')
           | Some h \<Rightarrow> Inr h))"

text \<open>
  A text denotes a value when the parser, given at least as much depth as the text is
  long, reads the value from the front of any longer text and leaves the remainder. The
  texts of the printer start with a quotation mark, a bracket or a brace.
\<close>

definition opens :: "string \<Rightarrow> bool" where
  "opens t = (case t of [] \<Rightarrow> False
              | c # cs \<Rightarrow> c = CHR 0x22 \<or> c = CHR ''['' \<or> c = CHR ''{'')"

definition denotes :: "string \<Rightarrow> json \<Rightarrow> bool" where
  "denotes t v =
     (opens t \<and> (\<forall>n rest. length t \<le> n \<longrightarrow> parseValue n (t @ rest) = Some (v, rest)))"

text \<open>The values that the printed parts, turns and histories denote.\<close>

definition partJson :: "content_part \<Rightarrow> json" where
  "partJson p = JObject [(''type'', JString (type p)), (''text'', JString (text' p))]"

definition messageJson :: "message \<Rightarrow> json" where
  "messageJson m =
     JObject ((''role'', JString (role m)) #
              (case content m of
                 None \<Rightarrow> []
               | Some cs \<Rightarrow> [(''content'', JArray (map partJson cs))]))"

section \<open>Sequences of store calls and sample values\<close>

text \<open>
  What the backend in use holds for a conversation: the file
  \<^verbatim>\<open><localStoragePath>/<conversationId>.json\<close> or the blob \<^verbatim>\<open><conversationId>.json\<close>.
\<close>

definition storedContent :: "runtime \<Rightarrow> string \<Rightarrow> service \<Rightarrow> world \<Rightarrow> string option" where
  "storedContent rt conversationId svc w =
     (if useLocalStorage svc
      then files w (path_join rt [localStoragePath svc, conversationId @ ''.json''])
      else blobs w (conversationId @ ''.json''))"

text \<open>The read of the backend in use throws.\<close>

definition readThrows :: "faults \<Rightarrow> service \<Rightarrow> bool" where
  "readThrows f svc =
     (if useLocalStorage svc then read_throws f
      else blob_exists_throws f \<or> download_throws f)"



definition deleteThenLoad ::
    "runtime \<Rightarrow> env \<Rightarrow> faults \<Rightarrow> faults \<Rightarrow> string \<Rightarrow> service \<Rightarrow> world
     \<Rightarrow> (exn + unit) \<times> (exn + message list)" where
  "deleteThenLoad rt ev fd fl conversationId svc w =
     (case deleteConversationHistory rt ev fd conversationId svc w of
        (r, svc1, w1) \<Rightarrow> (r, fst (loadConversationHistory rt ev fl conversationId svc1 w1)))"

text \<open>
  Sample values for evaluating the store: a history of one exchange and its JSON
  text; a runtime with the JSON functions of the section on JSON text, whose
  \<open>path_join\<close> joins with a slash and whose blob service keeps the declared number of
  code units of the body; an environment in local mode; no faults.
\<close>

definition sampleHistory :: "message list" where
  "sampleHistory = [userTurn ''hi'', assistantTurn ''hello'']"

definition sampleText :: string where
  \<open>sampleText =
     ''[{"role":"user","content":[{"type":"input_text","text":"hi"}]},'' @
     ''{"role":"assistant","content":[{"type":"output_text","text":"hello"}]}]''\<close>

definition sampleRuntime :: runtime where
  "sampleRuntime =
     \<lparr>path_join = (\<lambda>ps. foldr (\<lambda>p acc. if acc = [] then p else p @ ''/'' @ acc) ps []),
      dirname = ''/app'',
      tmpdir = ''/tmp'',
      JSON_stringify = stringifyHistory,
      JSON_parse = parseHistory,
      blob_stored = (\<lambda>body n. take n body)\<rparr>"

definition sampleEnv :: env where
  "sampleEnv =
     \<lparr>USE_LOCAL_STORAGE = Some ''true'', RUNNING_ON_AZURE = None,
      AZURE_STORAGE_ACCOUNT_NAME = None, AZURE_STORAGE_CONNECTION_STRING = None\<rparr>"

definition noFaults :: faults where
  "noFaults =
     \<lparr>mkdir_throws = (\<lambda>p. False), write_throws = False, read_throws = False,
      unlink_throws = False, client_throws = False,
      container_exists_throws = (\<lambda>k. False), create_throws = False,
      upload_throws = False, blob_exists_throws = False, download_throws = False,
      delete_throws = False\<rparr>"

definition sampleService :: service where
  "sampleService =
     \<lparr>initialized = False, useLocalStorage = True, localStoragePath = ''/app/history'',
      containerClient = False\<rparr>"

definition emptyWorld :: world where
  "emptyWorld = \<lparr>dirs = {''/app/history''}, files = Map.empty, container = None\<rparr>"

definition sampleWorld :: world where
  "sampleWorld =
     \<lparr>dirs = {''/app/history''},
      files = [''/app/history/c1.json'' \<mapsto> sampleText],
      container = None\<rparr>"

text \<open>
  The same on the blob backend: an environment with a connection string, the service
  before and after its initialisation, and the world once the container exists.
\<close>

definition azureEnv :: env where
  "azureEnv =
     \<lparr>USE_LOCAL_STORAGE = None, RUNNING_ON_AZURE = None,
      AZURE_STORAGE_ACCOUNT_NAME = None,
      AZURE_STORAGE_CONNECTION_STRING = Some ''UseDevelopmentStorage=true''\<rparr>"

definition azureService :: service where
  "azureService =
     \<lparr>initialized = False, useLocalStorage = False, localStoragePath = ''/app/history'',
      containerClient = False\<rparr>"



section \<open>Conversation manager\<close>

text \<open>
  The \<^verbatim>\<open>onMessage\<close> handler of \<^verbatim>\<open>TeamsBot\<close>. What it sends to the user is the list of the
  activities passed to \<^verbatim>\<open>context.sendActivity\<close>, in order.
\<close>

datatype activity = Typing | Text string

definition standardDisclaimer :: string where
  "standardDisclaimer =
     ''**DISCLAIMER:** U.S. Tax Assistant provides general tax information and guidance only. '' @
     ''The information provided is not legal or tax advice, and should not be relied upon as '' @
     ''such. Tax laws are complex and subject to change. While we strive for accuracy, this '' @
     ''bot may not account for your specific circumstances, recent tax law changes, or '' @
     ''uncommon tax situations. Always verify information with the official IRS resources or '' @
     ''consult with a qualified tax professional before making financial decisions or tax '' @
     ''filings. Jake Campbell, the creator of this bot, is not responsible for any actions '' @
     ''taken based on the information provided.''"

definition shortDisclaimer :: string where
  "shortDisclaimer =
     ''\<newline>\<newline>---\<newline>'' @
     ''*Note: This is not professional tax advice. Please verify all information provided.*''"

definition resetConfirmation :: string where
  "resetConfirmation = ''Conversation history has been reset! Let's start over!''"

definition restartHint :: string where
  "restartHint = ''You can type '/restart' anytime to start fresh!''"

definition apology :: string where
  "apology = ''I'm sorry, I'm having trouble processing your request. Please try again later.''"

text \<open>
  The answer of \<^verbatim>\<open>openai.responses.create\<close>, as far as the handler reads it (the field
  \<open>output_list\<close> is the property \<^verbatim>\<open>output\<close>). A field is
  \<open>None\<close> when the property is missing.
\<close>

record response_part =
  part_type :: string
  part_text :: "string option"

record output_item =
  item_type :: string
  item_content :: "response_part list option"

record response =
  output_text :: "string option"
  output_list :: "output_item list option"

text \<open>The three nested branches that compute \<^verbatim>\<open>botResponseText\<close>.\<close>

definition textOfMessage :: "output_item \<Rightarrow> string" where
  "textOfMessage messageOutput =
     (case item_content messageOutput of
        None \<Rightarrow> ''I processed your request but couldn't find a message in the response.''
      | Some parts \<Rightarrow>
          if length parts > 0 then
            (case find (\<lambda>item. part_type item = ''output_text'') parts of
               None \<Rightarrow> ''I processed your request but couldn't format the response properly.''
             | Some textContent \<Rightarrow>
                 (case part_text textContent of
                    None \<Rightarrow> ''I processed your request but couldn't format the response properly.''
                  | Some t \<Rightarrow>
                      if t \<noteq> [] then t
                      else ''I processed your request but couldn't format the response properly.''))
          else ''I processed your request but couldn't find a message in the response.'')"

definition textOfOutput :: "response \<Rightarrow> string" where
  "textOfOutput r =
     (case output_list r of
        None \<Rightarrow> ''I processed your request, but had trouble formatting the response.''
      | Some items \<Rightarrow>
          if length items > 0 then
            (case find (\<lambda>item. item_type item = ''message'') items of
               None \<Rightarrow> ''I processed your request but couldn't find a message in the response.''
             | Some messageOutput \<Rightarrow> textOfMessage messageOutput)
          else ''I processed your request, but had trouble formatting the response.'')"

definition botResponseTextOf :: "response \<Rightarrow> string" where
  "botResponseTextOf r =
     (case output_text r of
        None \<Rightarrow> textOfOutput r
      | Some t \<Rightarrow> if t \<noteq> [] then t else textOfOutput r)"

text \<open>
  \<^verbatim>\<open>toLowerCase\<close> on the letters \<^verbatim>\<open>A\<close> to \<^verbatim>\<open>Z\<close>, the only code units that lowercase into
  the letters of \<^verbatim>\<open>/restart\<close>.
\<close>

definition toLowerCase :: "string \<Rightarrow> string" where
  "toLowerCase s =
     map (\<lambda>c. if (65::nat) \<le> of_char c \<and> of_char c \<le> (90::nat)
              then char_of (of_char c + (32::nat)) else c) s"

text \<open>
  What one turn depends on besides the bot's own state: the platform and the
  environment of the store, the tokenizer, the model call, the Instructor call of the
  classifier, the formatted date (\<^verbatim>\<open>toLocaleString\<close> throws on an invalid time zone), the
  fixed instructions that follow the date in the system message, and the faults of the
  store calls the turn may make. In the handler the tokenizer is partial:
  \<^verbatim>\<open>encoder.encode\<close> throws on a text it refuses, such as one that spells a special token.
\<close>

record turn =
  runtime_of :: runtime
  env_of :: env
  tokenizer :: "string \<Rightarrow> exn + nat list"
  responses_create :: "message list \<Rightarrow> exn + response"
  instructor_create :: "string \<Rightarrow> exn + classification"
  formattedDate :: "exn + string"
  instructions :: string
  loadFaults :: faults
  saveFaults :: faults
  deleteFaults :: faults

text \<open>
  The state that outlives a turn: the \<^verbatim>\<open>conversationHistory\<close> property saved in the
  \<^verbatim>\<open>MemoryStorage\<close> behind \<^verbatim>\<open>ConversationState\<close>, per conversation identifier (written by
  \<^verbatim>\<open>saveChanges\<close> only; the accessor's \<^verbatim>\<open>get\<close> and \<^verbatim>\<open>set\<close> work on the cache of the turn);
  the storage service and the world it writes to; and what has been sent so far.
\<close>

record bot =
  memory :: "string \<rightharpoonup> message list"
  storage :: service
  outside :: world
  sent :: "activity list"

definition systemMessageOf :: "string \<Rightarrow> string \<Rightarrow> string" where
  "systemMessageOf date fixedInstructions =
     ''Today's date is '' @ date @ ''.\<newline>\<newline>'' @ fixedInstructions"

definition systemTurn :: "string \<Rightarrow> message" where
  "systemTurn systemMessage =
     \<lparr>role = ''system'',
      content = Some [\<lparr>type = ''input_text'', text' = systemMessage\<rparr>]\<rparr>"

definition requestMessages :: "string \<Rightarrow> message list \<Rightarrow> string \<Rightarrow> message list" where
  "requestMessages systemMessage conversationHistory txt =
     [systemTurn systemMessage] @ conversationHistory @ [userTurn txt]"

text \<open>
  The total encoder behind a tokenizer, for the counts made once every text has been
  encoded without an error; the texts that \<^verbatim>\<open>countTokensInMessages\<close> encodes, in order; and
  the first error that encoding a list of texts throws.
\<close>

definition tokensOf :: "(string \<Rightarrow> exn + nat list) \<Rightarrow> encoder" where
  "tokensOf encode s = (case encode s of Inl error \<Rightarrow> [] | Inr tokens \<Rightarrow> tokens)"

definition countedTexts :: "message list \<Rightarrow> string list" where
  "countedTexts messages =
     concat (map (\<lambda>m. case content m of
                         None \<Rightarrow> []
                       | Some cs \<Rightarrow>
                           map text' (filter (\<lambda>c. type c = ''input_text''
                                                  \<or> type c = ''output_text'') cs))
                 messages)"

fun encodeError :: "(string \<Rightarrow> exn + nat list) \<Rightarrow> string list \<Rightarrow> exn option" where
  "encodeError encode [] = None"
| "encodeError encode (x # xs) =
     (case encode x of
        Inl error \<Rightarrow> Some error
      | Inr tokens \<Rightarrow> encodeError encode xs)"

text \<open>The reset command.\<close>

definition restart :: "turn \<Rightarrow> string \<Rightarrow> bot \<Rightarrow> (exn + unit) \<times> bot" where
  "restart t conversationId b =
     (let b1 = b\<lparr>memory := (memory b)(conversationId \<mapsto> [])\<rparr>
      in case deleteConversationHistory (runtime_of t) (env_of t) (deleteFaults t)
                conversationId (storage b1) (outside b1) of
           (Inl error, svc, w) \<Rightarrow> (Inl error, b1\<lparr>storage := svc, outside := w\<rparr>)
         | (Inr u, svc, w) \<Rightarrow>
             (Inr (),
              b1\<lparr>storage := svc, outside := w,
                 sent := sent b1 @ [Text resetConfirmation, Text standardDisclaimer,
                                    Text restartHint]\<rparr>))"

text \<open>
  The history the turn works on: the one in memory, or, when that is empty, the one
  loaded from the store if it is not empty. An error of the load is caught and logged,
  and so is an error of the token count that is logged after the restored history has
  been taken over.
\<close>

definition restoreHistory ::
    "turn \<Rightarrow> string \<Rightarrow> bot \<Rightarrow> message list \<times> service \<times> world" where
  "restoreHistory t conversationId b =
     (let conversationHistory =
            (case memory b conversationId of None \<Rightarrow> [] | Some h \<Rightarrow> h)
      in if length conversationHistory = 0 then
           (case loadConversationHistory (runtime_of t) (env_of t) (loadFaults t)
                   conversationId (storage b) (outside b) of
              (Inr savedHistory, svc, w) \<Rightarrow>
                if length savedHistory > 0 then (savedHistory, svc, w)
                else (conversationHistory, svc, w)
            | (Inl error, svc, w) \<Rightarrow> (conversationHistory, svc, w))
         else (conversationHistory, storage b, outside b))"

text \<open>
  The rest of the \<^verbatim>\<open>try\<close> block, once the model has answered: encode the answer,
  classify it, reply, append the exchange, trim, save to memory and to the store.
\<close>

definition afterResponse ::
    "turn \<Rightarrow> string \<Rightarrow> string \<Rightarrow> message list \<Rightarrow> int \<Rightarrow> response \<Rightarrow> bot
     \<Rightarrow> (exn + unit) \<times> bot" where
  "afterResponse t conversationId txt conversationHistory systemTokens r b =
     (let botResponseText = botResponseTextOf r
      in (case tokenizer t botResponseText of
            Inl error \<Rightarrow> (Inl error, b)
          | Inr responseEncoded \<Rightarrow>
              (case classifyTextForDisclaimer (instructor_create t) botResponseText of
                 Inl error \<Rightarrow> (Inl error, b)
               | Inr classification \<Rightarrow>
                   (let b1 = b\<lparr>sent := sent b @
                              [Text (if class_label classification = NEEDS_DISCLAIMER
                                     then botResponseText @ shortDisclaimer
                                     else botResponseText)]\<rparr>;
                        history1 = conversationHistory
                          @ [userTurn txt, assistantTurn botResponseText];
                        history2 =
                          (if length history1 > 0
                           then trimConversationToTokenLimit (tokensOf (tokenizer t))
                                  history1 systemTokens 0
                           else history1);
                        b2 = b1\<lparr>memory := (memory b1)(conversationId \<mapsto> history2)\<rparr>
                    in (case saveConversationHistory (runtime_of t) (env_of t)
                               (saveFaults t) conversationId history2
                               (storage b2) (outside b2) of
                          (res, svc, w) \<Rightarrow>
                            (res, b2\<lparr>storage := svc, outside := w\<rparr>))))))"

text \<open>
  The \<^verbatim>\<open>try\<close> block: encode the system message and the user's text, build the request
  and count its tokens, call the model, encode the answer, classify it, reply, append
  the exchange, trim, save to memory and to the store. \<open>Inl\<close> is the error that reaches
  the \<^verbatim>\<open>catch\<close> block, with the state at the moment of the throw. When the trimmer
  counts, every text of the history has already been encoded without an error in this
  block, so the counts from there on do not throw.
\<close>

definition tryBlock ::
    "turn \<Rightarrow> string \<Rightarrow> string \<Rightarrow> message list \<Rightarrow> bot \<Rightarrow> (exn + unit) \<times> bot" where
  "tryBlock t conversationId txt conversationHistory b =
     (case formattedDate t of
        Inl error \<Rightarrow> (Inl error, b)
      | Inr date \<Rightarrow>
          (let systemMessage = systemMessageOf date (instructions t)
           in (case tokenizer t systemMessage of
                 Inl error \<Rightarrow> (Inl error, b)
               | Inr systemEncoded \<Rightarrow>
                   (case tokenizer t txt of
                      Inl error \<Rightarrow> (Inl error, b)
                    | Inr userEncoded \<Rightarrow>
                        (let systemTokens = int (length systemEncoded);
                             messages =
                               requestMessages systemMessage conversationHistory txt
                         in (case encodeError (tokenizer t) (countedTexts messages) of
                               Some error \<Rightarrow> (Inl error, b)
                             | None \<Rightarrow>
                                 (case responses_create t messages of
                                    Inl error \<Rightarrow> (Inl error, b)
                                  | Inr r \<Rightarrow>
                                      afterResponse t conversationId txt
                                        conversationHistory systemTokens r b)))))))"

text \<open>
  The handler. \<open>Inl\<close> is an error that leaves the handler (only the reset command can
  throw one, from the initialisation of the store).
\<close>

definition onMessage :: "turn \<Rightarrow> string \<Rightarrow> string \<Rightarrow> bot \<Rightarrow> (exn + unit) \<times> bot" where
  "onMessage t conversationId txt b =
     (if toLowerCase txt = ''/restart'' then restart t conversationId b
      else
        (case restoreHistory t conversationId b of
           (conversationHistory, svc, w) \<Rightarrow>
             (let b1 = b\<lparr>storage := svc, outside := w, sent := sent b @ [Typing]\<rparr>
              in (case tryBlock t conversationId txt conversationHistory b1 of
                    (Inr u, b2) \<Rightarrow> (Inr (), b2)
                  | (Inl error, b2) \<Rightarrow>
                      (Inr (), b2\<lparr>sent := sent b2 @ [Text apology]\<rparr>)))))"

text \<open>Sample values for evaluating a turn: the model call fails.\<close>

definition failingTurn :: turn where
  "failingTurn =
     \<lparr>runtime_of = sampleRuntime, env_of = sampleEnv,
      tokenizer = (\<lambda>s. Inr (unitEncoder s)),
      responses_create = (\<lambda>messages. Inl (Error ''503 Service Unavailable'')),
      instructor_create = (\<lambda>prompt. Inl (Error ''not reached'')),
      formattedDate = Inr ''Monday, January 6, 2025 at 9:00 AM EST'',
      instructions = ''You are U.S. Tax Assistant.'',
      loadFaults = noFaults, saveFaults = noFaults, deleteFaults = noFaults\<rparr>"

definition sampleBot :: bot where
  "sampleBot =
     \<lparr>memory = Map.empty, storage = sampleService, outside = sampleWorld, sent = []\<rparr>"

section \<open>Properties of the token counter\<close>

lemma foldl_countStep:
  "foldl (countStep enc) a cs = a + foldl (countStep enc) 0 cs"
proof (induction cs arbitrary: a)
  case Nil
  show ?case by simp
next
  case (Cons c cs)
  have "foldl (countStep enc) a (c # cs) = foldl (countStep enc) (countStep enc a c) cs"
    by simp
  also have "\<dots> = countStep enc a c + foldl (countStep enc) 0 cs"
    by (rule Cons.IH)
  also have "\<dots> = a + (countStep enc 0 c + foldl (countStep enc) 0 cs)"
    by (simp add: countStep_def)
  also have "countStep enc 0 c + foldl (countStep enc) 0 cs
             = foldl (countStep enc) (countStep enc 0 c) cs"
    by (rule Cons.IH [symmetric])
  finally show ?case by simp
qed

lemma foldl_countStep_nonneg: "0 \<le> a \<Longrightarrow> 0 \<le> foldl (countStep enc) a cs"
  by (induction cs arbitrary: a) (simp_all add: countStep_def)

lemma countTokensInMessage_nonneg: "0 \<le> countTokensInMessage enc m"
  by (simp add: countTokensInMessage_def foldl_countStep_nonneg split: option.split)

lemma foldl_add_count:
  "foldl (\<lambda>t m. t + countTokensInMessage enc m) a ms
   = a + foldl (\<lambda>t m. t + countTokensInMessage enc m) 0 ms"
proof (induction ms arbitrary: a)
  case Nil
  show ?case by simp
next
  case (Cons m ms)
  show ?case
    using Cons.IH [of "a + countTokensInMessage enc m"]
          Cons.IH [of "countTokensInMessage enc m"]
    by simp
qed

lemma countTokensInMessages_Nil: "countTokensInMessages enc [] = 0"
  by (simp add: countTokensInMessages_def)

lemma countTokensInMessages_Cons:
  "countTokensInMessages enc (m # ms)
   = countTokensInMessage enc m + countTokensInMessages enc ms"
  using foldl_add_count [of enc "countTokensInMessage enc m" ms]
  by (simp add: countTokensInMessages_def)

lemma countTokensInMessages_append:
  "countTokensInMessages enc (h1 @ h2)
   = countTokensInMessages enc h1 + countTokensInMessages enc h2"
  by (induction h1) (simp_all add: countTokensInMessages_Nil countTokensInMessages_Cons)

lemma countTokensInMessages_nonneg: "0 \<le> countTokensInMessages enc h"
  by (induction h)
     (simp_all add: countTokensInMessages_Nil countTokensInMessages_Cons
        countTokensInMessage_nonneg)

lemma countStep_other:
  "type c \<noteq> ''input_text'' \<Longrightarrow> type c \<noteq> ''output_text'' \<Longrightarrow> countStep enc a c = a"
  by (simp add: countStep_def)

lemma foldl_countStep_append:
  "foldl (countStep enc) 0 (cs1 @ cs2)
   = foldl (countStep enc) 0 cs1 + foldl (countStep enc) 0 cs2"
  using foldl_countStep [of enc "foldl (countStep enc) 0 cs1" cs2] by simp

section \<open>Properties of the trimmer\<close>

lemma trimLoop_exit:
  "systemTokens + userTokens
     + countTokensInHistory enc (trimLoop enc systemTokens userTokens h) \<le> MAX_TOKENS
   \<or> length (trimLoop enc systemTokens userTokens h) < 2"
proof (induction enc systemTokens userTokens h rule: trimLoop.induct)
  case (1 enc systemTokens userTokens h)
  show ?case
  proof (cases "systemTokens + userTokens + countTokensInHistory enc h > MAX_TOKENS
                \<and> length h \<ge> 2")
    case True
    then show ?thesis using "1.IH" by (subst (1 2) trimLoop.simps) simp
  next
    case False
    then show ?thesis by (subst (1 2) trimLoop.simps) auto
  qed
qed

lemma trimLoop_stable:
  "\<not> (systemTokens + userTokens + countTokensInHistory enc h > MAX_TOKENS \<and> length h \<ge> 2)
   \<Longrightarrow> trimLoop enc systemTokens userTokens h = h"
  by (subst trimLoop.simps) auto

lemma trimLoop_drop:
  "\<exists>k. 2 * k \<le> length h \<and> trimLoop enc systemTokens userTokens h = drop (2 * k) h"
proof (induction enc systemTokens userTokens h rule: trimLoop.induct)
  case (1 enc systemTokens userTokens h)
  show ?case
  proof (cases "systemTokens + userTokens + countTokensInHistory enc h > MAX_TOKENS
                \<and> length h \<ge> 2")
    case True
    with "1.IH" obtain k where k: "2 * k \<le> length (drop 2 h)"
      "trimLoop enc systemTokens userTokens (drop 2 h) = drop (2 * k) (drop 2 h)"
      by blast
    have "trimLoop enc systemTokens userTokens h = drop (2 * Suc k) h"
      using True k(2) by (subst trimLoop.simps) (simp add: add.commute)
    moreover have "2 * Suc k \<le> length h" using True k(1) by (simp del: mult_Suc_right) arith
    ultimately show ?thesis by blast
  next
    case False
    then have "trimLoop enc systemTokens userTokens h = drop (2 * 0) h"
      by (simp add: trimLoop_stable)
    then show ?thesis by (intro exI [of _ 0]) simp
  qed
qed

lemma trimLoop_idem:
  "trimLoop enc systemTokens userTokens (trimLoop enc systemTokens userTokens h)
   = trimLoop enc systemTokens userTokens h"
  using trimLoop_exit [of systemTokens userTokens enc h]
  by (intro trimLoop_stable) auto

lemma trim_drop:
  "\<exists>k. 2 * k \<le> length h
       \<and> trimConversationToTokenLimit enc h systemTokens userTokens = drop (2 * k) h"
proof (cases "length h = 0 \<or> systemTokens + userTokens + countTokensInHistory enc h \<le> MAX_TOKENS")
  case True
  then have "trimConversationToTokenLimit enc h systemTokens userTokens = drop (2 * 0) h"
    by (auto simp: trimConversationToTokenLimit_def Let_def)
  then show ?thesis by (intro exI [of _ 0]) simp
next
  case False
  then have "trimConversationToTokenLimit enc h systemTokens userTokens
             = trimLoop enc systemTokens userTokens h"
    by (simp add: trimConversationToTokenLimit_def Let_def)
  then show ?thesis using trimLoop_drop [of h enc systemTokens userTokens] by simp
qed

lemma trim_budget:
  "systemTokens + userTokens
     + countTokensInHistory enc (trimConversationToTokenLimit enc h systemTokens userTokens)
     \<le> MAX_TOKENS
   \<or> length (trimConversationToTokenLimit enc h systemTokens userTokens) \<le> 1"
proof (cases "length h = 0 \<or> systemTokens + userTokens + countTokensInHistory enc h \<le> MAX_TOKENS")
  case True
  then show ?thesis by (auto simp: trimConversationToTokenLimit_def Let_def)
next
  case False
  then have "trimConversationToTokenLimit enc h systemTokens userTokens
             = trimLoop enc systemTokens userTokens h"
    by (simp add: trimConversationToTokenLimit_def Let_def)
  then show ?thesis using trimLoop_exit [of systemTokens userTokens enc h] by auto
qed

lemma trim_compliant:
  "systemTokens + userTokens + countTokensInHistory enc h \<le> MAX_TOKENS
   \<Longrightarrow> trimConversationToTokenLimit enc h systemTokens userTokens = h"
  by (simp add: trimConversationToTokenLimit_def Let_def)

lemma trim_idem:
  "trimConversationToTokenLimit enc
     (trimConversationToTokenLimit enc h systemTokens userTokens) systemTokens userTokens
   = trimConversationToTokenLimit enc h systemTokens userTokens"
proof -
  let ?r = "trimConversationToTokenLimit enc h systemTokens userTokens"
  from trim_budget [of systemTokens userTokens enc h]
  have "\<not> (systemTokens + userTokens + countTokensInHistory enc ?r > MAX_TOKENS
           \<and> length ?r \<ge> 2)"
    by auto
  then have "trimLoop enc systemTokens userTokens ?r = ?r"
    by (rule trimLoop_stable)
  then show ?thesis
    by (simp add: trimConversationToTokenLimit_def [of enc ?r] Let_def)
qed

lemma even_length_drop2:
  "2 * k \<le> length (h :: 'a list) \<Longrightarrow> even (length (drop (2 * k) h)) = even (length h)"
  by simp

lemma trim_even:
  assumes "even (length h)"
  shows "even (length (trimConversationToTokenLimit enc h systemTokens userTokens))"
proof -
  from trim_drop [of h enc systemTokens userTokens] obtain k where
    k: "2 * k \<le> length h"
       "trimConversationToTokenLimit enc h systemTokens userTokens = drop (2 * k) h"
    by blast
  from k(1) have "even (length (drop (2 * k) h)) = even (length h)"
    by (rule even_length_drop2)
  with assms k(2) show ?thesis by simp
qed

text \<open>
  The history a successful turn stores is the old one plus one exchange, trimmed: it
  has even length when the old one has.
\<close>

lemma exchange_keeps_even:
  assumes "even (length h)"
  shows "even (length (trimConversationToTokenLimit enc
           (h @ [userTurn txt, assistantTurn answer]) systemTokens 0))"
proof -
  from assms have "even (length (h @ [userTurn txt, assistantTurn answer]))" by simp
  then show ?thesis by (rule trim_even)
qed

text \<open>The loop on the store changes the array it is given, and only that array, as the loop on
  values says.\<close>

lemma trimLoopS_frame:
  "r < length st \<Longrightarrow>
   length (trimLoopS enc systemTokens userTokens r st) = length st
   \<and> (\<forall>q. q \<noteq> r \<longrightarrow> trimLoopS enc systemTokens userTokens r st ! q = st ! q)
   \<and> trimLoopS enc systemTokens userTokens r st ! r
       = trimLoop enc systemTokens userTokens (st ! r)"
proof (induction enc systemTokens userTokens r st rule: trimLoopS.induct)
  case (1 enc systemTokens userTokens r st)
  show ?case
  proof (cases "systemTokens + userTokens + countTokensInHistory enc (st ! r) > MAX_TOKENS
                \<and> length (st ! r) \<ge> 2")
    case True
    with "1.prems" have step:
      "trimLoopS enc systemTokens userTokens r st
       = trimLoopS enc systemTokens userTokens r (splice02 st r)"
      by (subst trimLoopS.simps) simp
    have len: "r < length (splice02 st r)"
      using "1.prems" by (simp add: splice02_def)
    from "1.IH" [OF _ len] True "1.prems"
    have ih: "length (trimLoopS enc systemTokens userTokens r (splice02 st r))
                = length (splice02 st r)"
      "\<forall>q. q \<noteq> r \<longrightarrow>
           trimLoopS enc systemTokens userTokens r (splice02 st r) ! q = splice02 st r ! q"
      "trimLoopS enc systemTokens userTokens r (splice02 st r) ! r
         = trimLoop enc systemTokens userTokens (splice02 st r ! r)"
      by simp_all
    have at: "splice02 st r ! r = drop 2 (st ! r)"
      using "1.prems" by (simp add: splice02_def)
    have other: "\<forall>q. q \<noteq> r \<longrightarrow> splice02 st r ! q = st ! q"
      by (simp add: splice02_def)
    have pure: "trimLoop enc systemTokens userTokens (st ! r)
                = trimLoop enc systemTokens userTokens (drop 2 (st ! r))"
      using True by (subst trimLoop.simps) simp
    show ?thesis
      using step ih at other pure by (simp add: splice02_def)
  next
    case False
    then have "trimLoopS enc systemTokens userTokens r st = st"
      by (subst trimLoopS.simps) auto
    moreover from False have "trimLoop enc systemTokens userTokens (st ! r) = st ! r"
      by (rule trimLoop_stable)
    ultimately show ?thesis by simp
  qed
qed

section \<open>Properties of the JSON text\<close>

lemma hexValue_hexDigit: "n < 16 \<Longrightarrow> hexValue (hexDigit n) = Some n"
proof -
  assume "n < 16"
  then consider "n = 0" | "n = 1" | "n = 2" | "n = 3" | "n = 4" | "n = 5" | "n = 6"
    | "n = 7" | "n = 8" | "n = 9" | "n = 10" | "n = 11" | "n = 12" | "n = 13"
    | "n = 14" | "n = 15"
    by (auto simp: less_Suc_eq numeral_eq_Suc)
  then show ?thesis
    by cases (simp_all add: hexValue_def hexDigit_def)
qed

lemma codeUnit_control:
  assumes "of_char c < (32::nat)"
  shows "codeUnit (CHR ''0'') (CHR ''0'')
           (hexDigit (of_char c div 16)) (hexDigit (of_char c mod 16)) = Some c"
proof -
  have z: "hexValue (CHR ''0'') = Some 0" by (simp add: hexValue_def)
  have a: "hexValue (hexDigit (of_char c div 16)) = Some (of_char c div 16)"
    using assms by (intro hexValue_hexDigit) simp
  have b: "hexValue (hexDigit (of_char c mod 16)) = Some (of_char c mod 16)"
    by (intro hexValue_hexDigit) simp
  have n: "(of_char c div 16) * 16 + of_char c mod 16 = (of_char c :: nat)" by simp
  show ?thesis using assms by (simp add: codeUnit_def z a b n)
qed

text \<open>Reading back one printed code unit.\<close>

lemma parseChars_quoteUnit:
  "parseChars (quoteUnit c @ s) =
     (case parseChars s of None \<Rightarrow> None | Some (x, rest) \<Rightarrow> Some (c # x, rest))"
proof -
  consider "c = CHR 0x22" | "c = CHR 0x5C" | "c = CHR 0x08" | "c = CHR 0x09"
    | "c = CHR 0x0A" | "c = CHR 0x0C" | "c = CHR 0x0D"
    | "c \<noteq> CHR 0x22" "c \<noteq> CHR 0x5C" "c \<noteq> CHR 0x08" "c \<noteq> CHR 0x09" "c \<noteq> CHR 0x0A"
      "c \<noteq> CHR 0x0C" "c \<noteq> CHR 0x0D" "of_char c < (32::nat)"
    | "c \<noteq> CHR 0x22" "c \<noteq> CHR 0x5C" "\<not> of_char c < (32::nat)"
    by blast
  then show ?thesis
  proof cases
    case 8
    then show ?thesis
      by (simp add: quoteUnit_def codeUnit_control split: option.splits)
  next
    case 9
    then have "quoteUnit c = [c]" by (auto simp: quoteUnit_def)
    with 9 show ?thesis by (simp split: option.splits)
  qed (simp_all add: quoteUnit_def unescape_def split: option.splits)
qed

lemma parseChars_quoteBody:
  "parseChars (quoteBody s @ CHR 0x22 # rest) = Some (s, rest)"
proof (induction s)
  case Nil
  show ?case by (simp add: quoteBody_def)
next
  case (Cons c s)
  have "quoteBody (c # s) @ CHR 0x22 # rest = quoteUnit c @ (quoteBody s @ CHR 0x22 # rest)"
    by (simp add: quoteBody_def)
  then show ?case using Cons.IH by (simp only: parseChars_quoteUnit) simp
qed

lemma opens_skipWs: "opens t \<Longrightarrow> skipWs (t @ rest) = t @ rest"
  by (cases t) (auto simp: opens_def isWs_def)

lemma opens_Cons: "opens t \<Longrightarrow> \<exists>c cs. t = c # cs \<and> \<not> isWs c \<and> c \<noteq> CHR '']'' \<and> c \<noteq> CHR ''}''"
  by (cases t) (auto simp: opens_def isWs_def)

lemma denotes_string: "denotes (quoteJSONString s) (JString s)"
proof -
  have "parseValue n (quoteJSONString s @ rest) = Some (JString s, rest)"
    if "length (quoteJSONString s) \<le> n" for n rest
  proof -
    from that obtain m where "n = Suc m" by (cases n) (auto simp: quoteJSONString_def)
    then show ?thesis
      by (simp add: quoteJSONString_def isWs_def parseChars_quoteBody)
  qed
  then show ?thesis by (simp add: denotes_def opens_def quoteJSONString_def)
qed

lemma parseElements_commaSep:
  assumes "list_all2 denotes ts vs" "ts \<noteq> []"
    and "length (commaSep ts) < n"
  shows "parseElements n (commaSep ts @ CHR '']'' # rest) = Some (vs, rest)"
  using assms
proof (induction ts arbitrary: vs n)
  case Nil
  then show ?case by simp
next
  case (Cons t ts)
  from Cons.prems(1) obtain v vs' where vs: "vs = v # vs'" "denotes t v" "list_all2 denotes ts vs'"
    by (auto simp: list_all2_Cons1)
  from Cons.prems(3) obtain m where n: "n = Suc m" by (cases n) auto
  show ?case
  proof (cases ts)
    case Nil
    with vs have e: "vs' = []" by simp
    from Nil Cons.prems(3) n have "length t \<le> m" by simp
    with vs(2) have "parseValue m (t @ CHR '']'' # rest) = Some (v, CHR '']'' # rest)"
      by (simp add: denotes_def)
    with Nil e vs(1) n show ?thesis by (simp add: isWs_def)
  next
    case (Cons t' ts')
    then have c: "commaSep (t # ts) = t @ CHR '','' # commaSep ts" by simp
    from c Cons.prems(3) n have l: "length t \<le> m" "length (commaSep ts) < m" by simp_all
    from vs(2) l(1)
    have "parseValue m (t @ CHR '','' # commaSep ts @ CHR '']'' # rest)
          = Some (v, CHR '','' # commaSep ts @ CHR '']'' # rest)"
      by (simp add: denotes_def)
    moreover from Cons have "ts \<noteq> []" by simp
    with Cons.IH [OF vs(3) _ l(2)]
    have "parseElements m (commaSep ts @ CHR '']'' # rest) = Some (vs', rest)" by simp
    ultimately show ?thesis using c n vs(1) by (simp add: isWs_def)
  qed
qed

lemma opens_commaSep:
  "ts \<noteq> [] \<Longrightarrow> opens (hd ts) \<Longrightarrow>
   \<exists>c cs. commaSep ts = c # cs \<and> \<not> isWs c \<and> c \<noteq> CHR '']'' \<and> c \<noteq> CHR ''}''"
proof (cases ts)
  case Nil
  assume "ts \<noteq> []"
  with Nil show ?thesis by simp
next
  case (Cons t ts')
  assume "opens (hd ts)"
  with Cons obtain c cs where t: "t = c # cs" "\<not> isWs c" "c \<noteq> CHR '']''" "c \<noteq> CHR ''}''"
    using opens_Cons [of t] by auto
  then show ?thesis using Cons by (cases ts') auto
qed

lemma denotes_array:
  assumes "list_all2 denotes ts vs"
  shows "denotes (arrayText ts) (JArray vs)"
proof -
  have "parseValue n (arrayText ts @ rest) = Some (JArray vs, rest)"
    if len: "length (arrayText ts) \<le> n" for n rest
  proof -
    from len obtain m where n: "n = Suc m" "length (commaSep ts) < m"
      by (cases n) (auto simp: arrayText_def)
    show ?thesis
    proof (cases ts)
      case Nil
      with assms n show ?thesis by (simp add: arrayText_def isWs_def)
    next
      case (Cons t ts')
      with assms have "opens (hd ts)" by (auto simp: list_all2_Cons1 denotes_def)
      with Cons obtain c cs where
        c: "commaSep ts = c # cs" "\<not> isWs c" "c \<noteq> CHR '']''" "c \<noteq> CHR ''}''"
        using opens_commaSep [of ts] by auto
      from Cons have "ts \<noteq> []" by simp
      from parseElements_commaSep [OF assms this n(2)]
      have "parseElements m (commaSep ts @ CHR '']'' # rest) = Some (vs, rest)" .
      then show ?thesis
        using n(1) c by (simp add: arrayText_def isWs_def)
    qed
  qed
  then show ?thesis by (simp add: denotes_def opens_def arrayText_def)
qed

text \<open>One member of an object, followed by a comma or by the closing brace.\<close>

lemma parseMembers_more:
  assumes "denotes t v" "length t \<le> m"
  shows "parseMembers (Suc m) (memberText k t @ CHR '','' # s) =
           (case parseMembers m s of
              None \<Rightarrow> None
            | Some (kvs, rest) \<Rightarrow> Some ((k, v) # kvs, rest))"
proof -
  from assms have "parseValue m (t @ CHR '','' # s) = Some (v, CHR '','' # s)"
    by (simp add: denotes_def)
  then show ?thesis
    by (simp add: memberText_def quoteJSONString_def isWs_def parseChars_quoteBody)
qed

lemma parseMembers_last:
  assumes "denotes t v" "length t \<le> m"
  shows "parseMembers (Suc m) (memberText k t @ CHR ''}'' # rest) = Some ([(k, v)], rest)"
proof -
  from assms have "parseValue m (t @ CHR ''}'' # rest) = Some (v, CHR ''}'' # rest)"
    by (simp add: denotes_def)
  then show ?thesis
    by (simp add: memberText_def quoteJSONString_def isWs_def parseChars_quoteBody)
qed

lemma parseValue_object:
  "parseValue (Suc m) (CHR ''{'' # memberText k t @ s) =
     (case parseMembers m (memberText k t @ s) of
        None \<Rightarrow> None
      | Some (kvs, rest) \<Rightarrow> Some (JObject kvs, rest))"
  by (simp add: memberText_def quoteJSONString_def isWs_def)

lemma denotes_object1:
  assumes "denotes t v"
  shows "denotes (objectText [memberText k t]) (JObject [(k, v)])"
proof -
  have "parseValue n (objectText [memberText k t] @ rest) = Some (JObject [(k, v)], rest)"
    if len: "length (objectText [memberText k t]) \<le> n" for n rest
  proof -
    from len obtain m where n: "n = Suc (Suc m)" "length t \<le> m"
      by (cases n; cases "n - 1") (auto simp: objectText_def memberText_def)
    show ?thesis
      using n parseMembers_last [OF assms n(2), of k rest]
      by (simp add: objectText_def parseValue_object del: parseValue.simps parseMembers.simps)
  qed
  then show ?thesis by (simp add: denotes_def opens_def objectText_def)
qed

lemma denotes_object2:
  assumes "denotes t1 v1" "denotes t2 v2"
  shows "denotes (objectText [memberText k1 t1, memberText k2 t2])
           (JObject [(k1, v1), (k2, v2)])"
proof -
  have "parseValue n (objectText [memberText k1 t1, memberText k2 t2] @ rest)
        = Some (JObject [(k1, v1), (k2, v2)], rest)"
    if len: "length (objectText [memberText k1 t1, memberText k2 t2]) \<le> n" for n rest
  proof -
    from len have "3 + length t1 + length t2 \<le> n"
      by (simp add: objectText_def memberText_def)
    then obtain m where n: "n = Suc (Suc (Suc m))" "length t1 \<le> Suc m" "length t2 \<le> m"
      by (cases n; cases "n - 1"; cases "n - 2") auto
    have a: "parseMembers (Suc m) (memberText k2 t2 @ CHR ''}'' # rest)
             = Some ([(k2, v2)], rest)"
      by (rule parseMembers_last [OF assms(2) n(3)])
    have b: "parseMembers (Suc (Suc m))
               (memberText k1 t1 @ CHR '','' # memberText k2 t2 @ CHR ''}'' # rest)
             = Some ([(k1, v1), (k2, v2)], rest)"
      using parseMembers_more [OF assms(1) n(2), of k1 "memberText k2 t2 @ CHR ''}'' # rest"] a
      by simp
    show ?thesis
      using n(1) b
      by (simp add: objectText_def parseValue_object del: parseValue.simps parseMembers.simps)
  qed
  then show ?thesis by (simp add: denotes_def opens_def objectText_def)
qed

lemma denotes_part: "denotes (stringifyPart p) (partJson p)"
  unfolding stringifyPart_def partJson_def
  by (intro denotes_object2 denotes_string)

lemma denotes_parts: "list_all2 denotes (map stringifyPart cs) (map partJson cs)"
  by (induction cs) (simp_all add: denotes_part)

lemma denotes_message: "denotes (stringifyMessage m) (messageJson m)"
proof (cases "content m")
  case None
  then show ?thesis
    unfolding stringifyMessage_def messageJson_def
    by (simp add: denotes_object1 denotes_string)
next
  case (Some cs)
  then show ?thesis
    unfolding stringifyMessage_def messageJson_def
    by (simp add: denotes_object2 denotes_string denotes_array denotes_parts)
qed

lemma denotes_messages: "list_all2 denotes (map stringifyMessage h) (map messageJson h)"
  by (induction h) (simp_all add: denotes_message)

lemma denotes_history: "denotes (stringifyHistory h) (JArray (map messageJson h))"
  unfolding stringifyHistory_def
  by (intro denotes_array denotes_messages)

lemma parseJSON_stringifyHistory:
  "parseJSON (stringifyHistory h) = Inr (JArray (map messageJson h))"
proof -
  have d: "parseValue n (stringifyHistory h @ rest) = Some (JArray (map messageJson h), rest)"
    if "length (stringifyHistory h) \<le> n" for n rest
    using denotes_history [of h] that by (simp add: denotes_def)
  from d [of "2 * length (stringifyHistory h) + 2" "[]"] show ?thesis
    by (simp add: parseJSON_def)
qed

lemma partOfJson_partJson: "partOfJson (partJson p) = Some p"
  by (simp add: partOfJson_def partJson_def propertyOf_def)

lemma those_parts: "those (map (partOfJson \<circ> partJson) cs) = Some cs"
  by (induction cs) (simp_all add: partOfJson_partJson)

lemma messageOfJson_messageJson: "messageOfJson (messageJson m) = Some m"
  by (cases "content m")
     (simp_all add: messageOfJson_def messageJson_def propertyOf_def those_parts)

lemma those_messages: "those (map (messageOfJson \<circ> messageJson) h) = Some h"
  by (induction h) (simp_all add: messageOfJson_messageJson)

text \<open>The parser inverts the printer on every history.\<close>

lemma parseHistory_stringifyHistory: "parseHistory (stringifyHistory h) = Inr h"
  by (simp add: parseHistory_def parseJSON_stringifyHistory historyOfJson_def those_messages)

lemma stringifyHistory_not_empty: "stringifyHistory h \<noteq> []"
  by (simp add: stringifyHistory_def arrayText_def)

text \<open>The sample text is the JSON text of the sample history.\<close>

lemma sampleText_json: "stringifyHistory sampleHistory = sampleText"
  by (simp add: stringifyHistory_def stringifyMessage_def stringifyPart_def arrayText_def
        objectText_def memberText_def quoteJSONString_def quoteBody_def quoteUnit_def
        sampleHistory_def sampleText_def userTurn_def assistantTurn_def)

lemma parseHistory_sampleText: "parseHistory sampleText = Inr sampleHistory"
  using parseHistory_stringifyHistory [of sampleHistory] by (simp add: sampleText_json)

lemma sampleText_not_empty: "sampleText \<noteq> []"
  using stringifyHistory_not_empty [of sampleHistory] by (simp add: sampleText_json)

lemma sampleHistory_length: "length sampleHistory = 2"
  by (simp add: sampleHistory_def)

section \<open>Properties of the history store\<close>

lemma initializeLocalStorage_frame:
  "initializeLocalStorage rt ev f svc w = (r, svc', w') \<Longrightarrow>
   files w' = files w \<and> container w' = container w
   \<and> initialized svc' = initialized svc \<and> useLocalStorage svc' = useLocalStorage svc
   \<and> containerClient svc' = containerClient svc"
  by (auto simp: initializeLocalStorage_def mkdirSync_def Let_def
           split: if_splits sum.splits)

lemma existsWithRetries_pos:
  "existsWithRetries f w (Suc n) = Inr b \<Longrightarrow> b = (container w \<noteq> None)"
  by (induction n) (auto split: if_splits)

lemma existsWithRetries_sound:
  "existsWithRetries f w 3 = Inr b \<Longrightarrow> b = (container w \<noteq> None)"
  using existsWithRetries_pos [of f w 2 b] by (simp add: numeral_3_eq_3)

lemma getContainer_frame:
  "getContainer f svc w = (r, svc', w') \<Longrightarrow>
   files w' = files w \<and> blobs w' = blobs w
   \<and> initialized svc' = initialized svc \<and> useLocalStorage svc' = useLocalStorage svc
   \<and> localStoragePath svc' = localStoragePath svc"
  using existsWithRetries_sound [of f w False] existsWithRetries_sound [of f w True]
  by (auto simp: getContainer_def Let_def blobs_def split: if_splits sum.splits)

lemma getContainer_ok:
  "getContainer f svc w = (Inr u, svc', w') \<Longrightarrow> containerClient svc' \<and> container w' \<noteq> None"
  using existsWithRetries_sound [of f w False] existsWithRetries_sound [of f w True]
  by (auto simp: getContainer_def Let_def split: if_splits sum.splits)

lemma connectAzure_frame:
  "connectAzure ev f svc w = (r, svc', w') \<Longrightarrow>
   files w' = files w \<and> blobs w' = blobs w
   \<and> initialized svc' = initialized svc \<and> useLocalStorage svc' = useLocalStorage svc
   \<and> localStoragePath svc' = localStoragePath svc"
  by (auto simp: connectAzure_def dest: getContainer_frame split: if_splits)

lemma connectAzure_ok:
  "connectAzure ev f svc w = (Inr u, svc', w') \<Longrightarrow> containerClient svc' \<and> container w' \<noteq> None"
  by (auto simp: connectAzure_def dest: getContainer_ok split: if_splits)

lemma initialize_frame:
  "initialize rt ev f svc w = (r, svc', w') \<Longrightarrow>
   files w' = files w \<and> blobs w' = blobs w"
  by (auto simp: initialize_def blobs_def
           dest!: connectAzure_frame initializeLocalStorage_frame
           split: if_splits sum.splits prod.splits)

lemma initialize_initialized:
  "initialize rt ev f svc w = (r, svc', w') \<Longrightarrow> initialized svc'"
  by (auto simp: initialize_def
           dest!: connectAzure_frame initializeLocalStorage_frame
           split: if_splits sum.splits prod.splits)

lemma initialize_again:
  "initialized svc \<Longrightarrow> initialize rt ev f svc w = (Inr (), svc, w)"
  by (simp add: initialize_def)

lemma load_result:
  assumes "initialize rt ev f svc w = (Inr (), svc1, w1)"
  shows "loadConversationHistory rt ev f cid svc w =
     ((case readContent rt f cid svc1 w1 of
         Inl error \<Rightarrow> Inr []
       | Inr None \<Rightarrow> Inr []
       | Inr (Some c) \<Rightarrow>
           if c = [] then Inr []
           else (case JSON_parse rt c of Inl error \<Rightarrow> Inr [] | Inr h \<Rightarrow> Inr h)),
      svc1, w1)"
  using assms
  by (simp add: loadConversationHistory_def split: sum.splits option.splits)

lemma readContent_cases:
  "readContent rt f cid svc w = Inr (Some c) \<Longrightarrow>
   storedContent rt cid svc w = Some c \<and> \<not> readThrows f svc"
  by (auto simp: readContent_def storedContent_def readThrows_def readFileSync_def
        getBlockBlobClient_def blobExists_def download_def Let_def
        split: if_splits sum.splits option.splits)



lemma load_empty_cases:
  assumes init: "initialize rt ev f svc w = (Inr (), svc1, w1)"
    and c: "storedContent rt cid svc1 w1 = None \<or> readThrows f svc1
            \<or> (\<exists>c. storedContent rt cid svc1 w1 = Some c
                     \<and> (c = [] \<or> (\<exists>e. JSON_parse rt c = Inl e)))"
  shows "fst (loadConversationHistory rt ev f cid svc w) = Inr []"
proof -
  have "readContent rt f cid svc1 w1 = Inr (Some d) \<Longrightarrow>
        d = [] \<or> (\<exists>e. JSON_parse rt d = Inl e)" for d
    using c readContent_cases [of rt f cid svc1 w1 d] by auto
  then show ?thesis
    unfolding load_result [OF init]
    by (auto split: sum.splits option.splits)
qed

lemma load_resolves:
  assumes init: "initialize rt ev f svc w = (Inr (), svc1, w1)"
  shows "\<exists>h. fst (loadConversationHistory rt ev f cid svc w) = Inr h"
  unfolding load_result [OF init]
  by (auto split: sum.splits option.splits)

lemma delete_result:
  assumes "deleteConversationHistory rt ev f cid svc w = (Inr (), svc2, w2)"
    and "\<not> unlink_throws f" "\<not> delete_throws f"
  shows "initialized svc2
         \<and> (storedContent rt cid svc2 w2 = None
            \<or> (\<not> useLocalStorage svc2 \<and> \<not> containerClient svc2))"
  using assms
  by (auto simp: deleteConversationHistory_def storedContent_def unlinkSync_def
        getBlockBlobClient_def deleteIfExists_def existsSync_def blobs_def Let_def
        dest: initialize_initialized
        split: if_splits sum.splits option.splits prod.splits)

lemma readContent_null_client:
  "\<not> useLocalStorage svc \<Longrightarrow> \<not> containerClient svc \<Longrightarrow>
   \<exists>e. readContent rt f cid svc w = Inl e"
  by (simp add: readContent_def getBlockBlobClient_def)

text \<open>
  \<^verbatim>\<open>initialize\<close> is awaited outside the \<^verbatim>\<open>try\<close> blocks: when the blob backend cannot be
  reached and, on Azure, none of the three directories can be made, the load rejects.
\<close>

lemma load_rejects_when_no_directory_can_be_made:
  "fst (loadConversationHistory sampleRuntime
          (azureEnv\<lparr>RUNNING_ON_AZURE := Some ''1'', AZURE_STORAGE_CONNECTION_STRING := None\<rparr>)
          (noFaults\<lparr>mkdir_throws := (\<lambda>p. True)\<rparr>) ''c1'' azureService
          \<lparr>dirs = {}, files = Map.empty, container = None\<rparr>)
   = Inl (Error ''mkdirSync'')"
  by (simp add: loadConversationHistory_def initialize_def connectAzure_def
        initializeLocalStorage_def mkdirSync_def existsSync_def azureEnv_def azureService_def
        noFaults_def truthy_def sampleRuntime_def)

section \<open>Properties of the conversation manager\<close>

lemma load_frame:
  "loadConversationHistory rt ev f cid svc w = (r, svc', w') \<Longrightarrow>
   files w' = files w \<and> blobs w' = blobs w"
  by (auto simp: loadConversationHistory_def dest: initialize_frame
        split: prod.splits sum.splits option.splits if_splits)

lemma restoreHistory_frame:
  "restoreHistory t cid b = (h, svc, w) \<Longrightarrow>
   files w = files (outside b) \<and> blobs w = blobs (outside b)"
  by (auto simp: restoreHistory_def Let_def dest: load_frame
        split: prod.splits sum.splits if_splits)

section \<open>Claims about the trimmer and the counter\<close>

text \<open>
  C1 (budget invariant). For every history and every count of system tokens, the
  history returned by \<open>trimConversationToTokenLimit\<close> called with \<open>userTokens = 0\<close>
  either fits the budget together with the system tokens, that is
  \<open>S + tokensOf(H') \<le> MAX_TOKENS = 900000\<close>, or has at most one element left.
\<close>

theorem C1_budget_invariant:
  "S + countTokensInHistory enc (trimConversationToTokenLimit enc H S 0) \<le> 900000
   \<or> length (trimConversationToTokenLimit enc H S 0) \<le> 1"
  using trim_budget [of S 0 enc H] by (simp add: MAX_TOKENS_def)

theorem C1_budget_invariant_witness:
  "899998 + countTokensInHistory unitEncoder
      (trimConversationToTokenLimit unitEncoder
         [userTurn ''hi'', assistantTurn ''hello'', userTurn ''a'', assistantTurn ''b'']
         899998 0) \<le> 900000
   \<and> length (trimConversationToTokenLimit unitEncoder
        [userTurn ''late'', assistantTurn ''reply''] 900000 0) \<le> 1"
proof -
  have a: "trimConversationToTokenLimit unitEncoder
             [userTurn ''hi'', assistantTurn ''hello'', userTurn ''a'', assistantTurn ''b'']
             899998 0 = [userTurn ''a'', assistantTurn ''b'']"
    by (simp add: trimConversationToTokenLimit_def trimLoop.simps countTokensInHistory_def
          countTokensInMessages_def countTokensInMessage_def countStep_def unitEncoder_def
          userTurn_def assistantTurn_def MAX_TOKENS_def)
  have b: "trimConversationToTokenLimit unitEncoder
             [userTurn ''late'', assistantTurn ''reply''] 900000 0 = []"
    by (simp add: trimConversationToTokenLimit_def trimLoop.simps countTokensInHistory_def
          countTokensInMessages_def countTokensInMessage_def countStep_def unitEncoder_def
          userTurn_def assistantTurn_def MAX_TOKENS_def)
  have c: "\<not> length [userTurn ''a'', assistantTurn ''b''] \<le> 1" by simp
  from C1_budget_invariant [of 899998 unitEncoder
         "[userTurn ''hi'', assistantTurn ''hello'', userTurn ''a'', assistantTurn ''b'']"]
       a b c
  show ?thesis by simp
qed

text \<open>
  C8 (oldest first). The result of \<open>trimConversationToTokenLimit\<close> is the input with
  some number \<open>k\<close> of whole exchanges removed from the front: a contiguous suffix of
  the input, in the input's order, with nothing removed from the middle.
\<close>

theorem C8_oldest_first:
  "\<exists>k. 2 * k \<le> length H
       \<and> trimConversationToTokenLimit enc H S U = drop (2 * k) H
       \<and> suffix (trimConversationToTokenLimit enc H S U) H"
proof -
  from trim_drop [of H enc S U] obtain k where
    k: "2 * k \<le> length H" "trimConversationToTokenLimit enc H S U = drop (2 * k) H"
    by blast
  have "suffix (drop (2 * k) H) H" by (rule suffix_drop)
  with k show ?thesis by auto
qed

theorem C8_oldest_first_witness:
  "trimConversationToTokenLimit unitEncoder
     [userTurn ''hi'', assistantTurn ''hello'', userTurn ''a'', assistantTurn ''b'']
     899998 0
   = drop (2 * 1)
       [userTurn ''hi'', assistantTurn ''hello'', userTurn ''a'', assistantTurn ''b'']
   \<and> suffix (trimConversationToTokenLimit unitEncoder
        [userTurn ''hi'', assistantTurn ''hello'', userTurn ''a'', assistantTurn ''b'']
        899998 0)
       [userTurn ''hi'', assistantTurn ''hello'', userTurn ''a'', assistantTurn ''b'']"
proof -
  let ?H = "[userTurn ''hi'', assistantTurn ''hello'', userTurn ''a'', assistantTurn ''b'']"
  have a: "trimConversationToTokenLimit unitEncoder ?H 899998 0 = drop (2 * 1) ?H"
    by (simp add: trimConversationToTokenLimit_def trimLoop.simps countTokensInHistory_def
          countTokensInMessages_def countTokensInMessage_def countStep_def unitEncoder_def
          userTurn_def assistantTurn_def MAX_TOKENS_def)
  from C8_oldest_first [of ?H unitEncoder 899998 0]
  have "suffix (trimConversationToTokenLimit unitEncoder ?H 899998 0) ?H" by blast
  with a show ?thesis by blast
qed

text \<open>
  C2 (pairing invariant). A history of even length, which is what the bot builds by
  appending one user turn and one assistant turn per exchange, has even length after
  trimming as well: \<open>trimConversationToTokenLimit\<close> removes whole exchanges only and
  never turns an even-length history into an odd-length one.
\<close>

theorem C2_pairing_invariant:
  assumes "even (length H)"
  shows "even (length (trimConversationToTokenLimit enc H S U))"
  using assms by (rule trim_even)

theorem C2_pairing_invariant_witness:
  "even (length [userTurn ''hi'', assistantTurn ''hello'', userTurn ''a'', assistantTurn ''b''])
   \<and> trimConversationToTokenLimit unitEncoder
        [userTurn ''hi'', assistantTurn ''hello'', userTurn ''a'', assistantTurn ''b'']
        899998 0
       = [userTurn ''a'', assistantTurn ''b'']
   \<and> even (length (trimConversationToTokenLimit unitEncoder
        [userTurn ''hi'', assistantTurn ''hello'', userTurn ''a'', assistantTurn ''b'']
        899998 0))"
proof -
  let ?H = "[userTurn ''hi'', assistantTurn ''hello'', userTurn ''a'', assistantTurn ''b'']"
  have e: "even (length ?H)" by simp
  have r: "trimConversationToTokenLimit unitEncoder ?H 899998 0
           = [userTurn ''a'', assistantTurn ''b'']"
    by (simp add: trimConversationToTokenLimit_def trimLoop.simps countTokensInHistory_def
          countTokensInMessages_def countTokensInMessage_def countStep_def unitEncoder_def
          userTurn_def assistantTurn_def MAX_TOKENS_def)
  from e r C2_pairing_invariant [OF e, of unitEncoder 899998 0] show ?thesis by simp
qed

text \<open>
  C7 (idempotence). Trimming the result of a trim again, with the same system tokens
  and \<open>userTokens = 0\<close>, returns the same sequence; and a history that already fits the
  budget is returned unchanged.
\<close>

theorem C7_idempotent:
  "trimConversationToTokenLimit enc (trimConversationToTokenLimit enc H S 0) S 0
     = trimConversationToTokenLimit enc H S 0
   \<and> (S + countTokensInHistory enc H \<le> MAX_TOKENS
        \<longrightarrow> trimConversationToTokenLimit enc H S 0 = H)"
  using trim_idem [of enc H S 0] trim_compliant [of S 0 enc H] by simp

theorem C7_idempotent_witness:
  "trimConversationToTokenLimit unitEncoder
     (trimConversationToTokenLimit unitEncoder
        [userTurn ''hi'', assistantTurn ''hello'', userTurn ''a'', assistantTurn ''b''] 899998 0)
     899998 0
   = [userTurn ''a'', assistantTurn ''b'']
   \<and> 5 + countTokensInHistory unitEncoder [userTurn ''hi'', assistantTurn ''hello'']
       \<le> MAX_TOKENS
   \<and> trimConversationToTokenLimit unitEncoder [userTurn ''hi'', assistantTurn ''hello''] 5 0
       = [userTurn ''hi'', assistantTurn ''hello'']"
proof -
  let ?H = "[userTurn ''hi'', assistantTurn ''hello'', userTurn ''a'', assistantTurn ''b'']"
  have r: "trimConversationToTokenLimit unitEncoder ?H 899998 0
           = [userTurn ''a'', assistantTurn ''b'']"
    by (simp add: trimConversationToTokenLimit_def trimLoop.simps countTokensInHistory_def
          countTokensInMessages_def countTokensInMessage_def countStep_def unitEncoder_def
          userTurn_def assistantTurn_def MAX_TOKENS_def)
  have c: "5 + countTokensInHistory unitEncoder [userTurn ''hi'', assistantTurn ''hello'']
           \<le> MAX_TOKENS"
    by (simp add: countTokensInHistory_def countTokensInMessages_def
          countTokensInMessage_def countStep_def unitEncoder_def userTurn_def
          assistantTurn_def MAX_TOKENS_def)
  from r c C7_idempotent [of unitEncoder ?H 899998]
       C7_idempotent [of unitEncoder "[userTurn ''hi'', assistantTurn ''hello'']" 5]
  show ?thesis by simp
qed

text \<open>
  C10 (additive counting). \<open>countTokensInMessages\<close> of a concatenation is the sum of the
  counts of the two parts; the count of a sequence and of a single turn is never
  negative; a content entry whose type is neither \<open>input_text\<close> nor \<open>output_text\<close> adds
  nothing to the count of its turn, wherever it stands in the content array; and a turn
  without a content array counts zero.
\<close>

theorem C10_count_additive:
  "countTokensInMessages enc (H1 @ H2)
     = countTokensInMessages enc H1 + countTokensInMessages enc H2
   \<and> 0 \<le> countTokensInMessages enc H
   \<and> 0 \<le> countTokensInMessage enc m
   \<and> (type c \<noteq> ''input_text'' \<and> type c \<noteq> ''output_text''
        \<longrightarrow> countTokensInMessage enc (m\<lparr>content := Some (cs1 @ c # cs2)\<rparr>)
            = countTokensInMessage enc (m\<lparr>content := Some (cs1 @ cs2)\<rparr>))
   \<and> countTokensInMessage enc (m\<lparr>content := None\<rparr>) = 0"
proof -
  have skip: "countTokensInMessage enc (m\<lparr>content := Some (cs1 @ c # cs2)\<rparr>)
              = countTokensInMessage enc (m\<lparr>content := Some (cs1 @ cs2)\<rparr>)"
    if "type c \<noteq> ''input_text''" "type c \<noteq> ''output_text''"
  proof -
    have "foldl (countStep enc) 0 (cs1 @ c # cs2)
          = foldl (countStep enc) 0 cs1 + foldl (countStep enc) 0 (c # cs2)"
      by (rule foldl_countStep_append)
    also have "foldl (countStep enc) 0 (c # cs2) = foldl (countStep enc) 0 cs2"
      using that by (simp add: countStep_other)
    also have "foldl (countStep enc) 0 cs1 + foldl (countStep enc) 0 cs2
               = foldl (countStep enc) 0 (cs1 @ cs2)"
      by (rule foldl_countStep_append [symmetric])
    finally show ?thesis by (simp add: countTokensInMessage_def)
  qed
  have none: "countTokensInMessage enc (m\<lparr>content := None\<rparr>) = 0"
    by (simp add: countTokensInMessage_def)
  from skip none show ?thesis
    by (simp add: countTokensInMessages_append countTokensInMessages_nonneg
          countTokensInMessage_nonneg)
qed

theorem C10_count_additive_witness:
  "countTokensInMessages unitEncoder ([userTurn ''hi''] @ [assistantTurn ''hello'']) = 7
   \<and> countTokensInMessages unitEncoder [userTurn ''hi''] = 2
   \<and> countTokensInMessages unitEncoder [assistantTurn ''hello''] = 5
   \<and> type \<lparr>type = ''image'', text' = ''abc''\<rparr> \<noteq> ''input_text''
   \<and> type \<lparr>type = ''image'', text' = ''abc''\<rparr> \<noteq> ''output_text''
   \<and> countTokensInMessage unitEncoder
        ((userTurn ''hi'')\<lparr>content := Some ([\<lparr>type = ''input_text'', text' = ''hi''\<rparr>]
           @ \<lparr>type = ''image'', text' = ''abc''\<rparr> # [])\<rparr>) = 2"
proof -
  have a: "countTokensInMessages unitEncoder [userTurn ''hi''] = 2"
    by (simp add: countTokensInMessages_def countTokensInMessage_def countStep_def
          unitEncoder_def userTurn_def)
  have b: "countTokensInMessages unitEncoder [assistantTurn ''hello''] = 5"
    by (simp add: countTokensInMessages_def countTokensInMessage_def countStep_def
          unitEncoder_def assistantTurn_def)
  have c: "countTokensInMessage unitEncoder
             ((userTurn ''hi'')\<lparr>content := Some ([\<lparr>type = ''input_text'', text' = ''hi''\<rparr>] @ [])\<rparr>)
           = 2"
    by (simp add: countTokensInMessage_def countStep_def unitEncoder_def userTurn_def)
  from a b c
    C10_count_additive [of unitEncoder "[userTurn ''hi'']" "[assistantTurn ''hello'']"
      "[]" "userTurn ''hi''" "\<lparr>type = ''image'', text' = ''abc''\<rparr>"
      "[\<lparr>type = ''input_text'', text' = ''hi''\<rparr>]" "[]"]
  show ?thesis by simp
qed

text \<open>
  C9 (no mutation of the input). Called on a reference \<open>r\<close> to the caller's array
  \<open>H\<close>, the trimmer returns a reference \<open>r'\<close> and a store in which every array that
  existed before the call, the caller's included, has the content it had before; the
  array behind \<open>r'\<close> holds the trimmed history; and when no trimming is needed (the
  history is empty or fits the budget) the reference returned is the argument and the
  store is untouched.
\<close>

theorem C9_input_not_mutated:
  assumes "deref st r = Some H"
  shows "\<exists>r' st'. trimConversationToTokenLimitS enc r S U st = Some (r', st')
           \<and> deref st' r = Some H
           \<and> take (length st) st' = st
           \<and> deref st' r' = Some (trimConversationToTokenLimit enc H S U)
           \<and> (if length H = 0 \<or> S + U + countTokensInHistory enc H \<le> MAX_TOKENS
               then r' = r \<and> st' = st else r' = length st)"
proof (cases "length H = 0 \<or> S + U + countTokensInHistory enc H \<le> MAX_TOKENS")
  case True
  then have "trimConversationToTokenLimitS enc r S U st = Some (r, st)"
    using assms by (auto simp: trimConversationToTokenLimitS_def Let_def)
  moreover from True have "trimConversationToTokenLimit enc H S U = H"
    by (auto simp: trimConversationToTokenLimit_def Let_def)
  ultimately show ?thesis using assms True by simp
next
  case False
  let ?st1 = "st @ [H]"
  let ?r' = "length st"
  let ?st' = "trimLoopS enc S U ?r' ?st1"
  from assms have r: "r < length st" "st ! r = H"
    by (auto simp: deref_def split: if_splits)
  have call: "trimConversationToTokenLimitS enc r S U st = Some (?r', ?st')"
    using assms False
    by (simp add: trimConversationToTokenLimitS_def Let_def spreadCopy_def)
  have "?r' < length ?st1" by simp
  from trimLoopS_frame [OF this, of enc S U]
  have frame: "length ?st' = Suc (length st)"
    "\<forall>q. q \<noteq> ?r' \<longrightarrow> ?st' ! q = ?st1 ! q"
    "?st' ! ?r' = trimLoop enc S U H"
    by simp_all
  have same: "take (length st) ?st' = st"
  proof (rule nth_equalityI)
    show "length (take (length st) ?st') = length st"
      using frame(1) by simp
  next
    fix i assume "i < length (take (length st) ?st')"
    then have i: "i < length st" by simp
    then have "?st' ! i = ?st1 ! i" using frame(2) by simp
    with i show "take (length st) ?st' ! i = st ! i"
      by (simp add: nth_append)
  qed
  have input: "deref ?st' r = Some H"
    using r frame(1) frame(2) by (simp add: deref_def nth_append)
  have result: "deref ?st' ?r' = Some (trimConversationToTokenLimit enc H S U)"
    using False frame(1) frame(3)
    by (simp add: deref_def trimConversationToTokenLimit_def Let_def)
  from call same input result False show ?thesis by simp
qed

theorem C9_input_not_mutated_witness:
  "deref [[userTurn ''hi'', assistantTurn ''hello'', userTurn ''a'', assistantTurn ''b'']] 0
     = Some [userTurn ''hi'', assistantTurn ''hello'', userTurn ''a'', assistantTurn ''b'']
   \<and> trimConversationToTokenLimitS unitEncoder 0 899998 0
        [[userTurn ''hi'', assistantTurn ''hello'', userTurn ''a'', assistantTurn ''b'']]
     = Some (1, [[userTurn ''hi'', assistantTurn ''hello'', userTurn ''a'', assistantTurn ''b''],
                 [userTurn ''a'', assistantTurn ''b'']])"
proof -
  let ?H = "[userTurn ''hi'', assistantTurn ''hello'', userTurn ''a'', assistantTurn ''b'']"
  have d: "deref [?H] 0 = Some ?H" by (simp add: deref_def)
  have n: "\<not> (length ?H = 0 \<or> 899998 + 0 + countTokensInHistory unitEncoder ?H \<le> MAX_TOKENS)"
    by (simp add: countTokensInHistory_def countTokensInMessages_def
          countTokensInMessage_def countStep_def unitEncoder_def userTurn_def
          assistantTurn_def MAX_TOKENS_def)
  have t: "trimConversationToTokenLimit unitEncoder ?H 899998 0
           = [userTurn ''a'', assistantTurn ''b'']"
    by (simp add: trimConversationToTokenLimit_def trimLoop.simps countTokensInHistory_def
          countTokensInMessages_def countTokensInMessage_def countStep_def unitEncoder_def
          userTurn_def assistantTurn_def MAX_TOKENS_def)
  from C9_input_not_mutated [OF d, of unitEncoder 899998 0] obtain r' st' where
    w: "trimConversationToTokenLimitS unitEncoder 0 899998 0 [?H] = Some (r', st')"
       "take (length [?H]) st' = [?H]"
       "deref st' r' = Some (trimConversationToTokenLimit unitEncoder ?H 899998 0)"
       "r' = length [?H]"
    using n by (auto split: if_splits)
  have "trimConversationToTokenLimitS unitEncoder 0 899998 0 [?H]
        = Some (1, [?H, [userTurn ''a'', assistantTurn ''b'']])"
    by (simp add: trimConversationToTokenLimitS_def deref_def spreadCopy_def
          trimLoopS.simps splice02_def countTokensInHistory_def countTokensInMessages_def
          countTokensInMessage_def countStep_def unitEncoder_def userTurn_def
          assistantTurn_def MAX_TOKENS_def)
  with d w show ?thesis by simp
qed

section \<open>Claims about the classifier and the history store\<close>

text \<open>
  C3 (fail-closed classification). If the classifier call throws, for whatever reason
  (the error value is arbitrary), \<open>classifyTextForDisclaimer\<close> still resolves, and the
  label of its result is \<open>NEEDS_DISCLAIMER\<close>.
\<close>

theorem C3_fail_closed:
  assumes "create (classifierPrompt txt) = Inl error"
  shows "\<exists>c. classifyTextForDisclaimer create txt = Inr c
             \<and> class_label c = NEEDS_DISCLAIMER"
  using assms by (simp add: classifyTextForDisclaimer_def)

theorem C3_fail_closed_witness:
  "(\<lambda>p. Inl (Error ''ECONNRESET'')) (classifierPrompt ''The standard deduction is $14,600.'')
     = (Inl (Error ''ECONNRESET'') :: exn + classification)
   \<and> classifyTextForDisclaimer (\<lambda>p. Inl (Error ''ECONNRESET''))
        ''The standard deduction is $14,600.''
     = Inr \<lparr>class_label = NEEDS_DISCLAIMER,
            explanation = ''Classification failed, defaulting to showing disclaimer for safety''\<rparr>"
proof -
  have h: "(\<lambda>p. Inl (Error ''ECONNRESET'')) (classifierPrompt ''The standard deduction is $14,600.'')
     = (Inl (Error ''ECONNRESET'') :: exn + classification)" by simp
  from C3_fail_closed [OF h] show ?thesis
    by (simp add: classifyTextForDisclaimer_def)
qed




text \<open>
  C6, as stated, fails: an error of the delete operation is caught and logged by
  \<open>deleteConversationHistory\<close>, which then returns normally with the stored history
  still in place, and the following load returns that history.
\<close>

theorem C6_delete_then_load_counterexample:
  "deleteThenLoad sampleRuntime sampleEnv (noFaults\<lparr>unlink_throws := True\<rparr>) noFaults ''c1''
     sampleService sampleWorld
   = (Inr (), Inr sampleHistory)
   \<and> sampleHistory \<noteq> []"
proof -
  have "sampleHistory \<noteq> []" by (simp add: sampleHistory_def)
  then show ?thesis
    by (simp add: deleteThenLoad_def deleteConversationHistory_def
          loadConversationHistory_def initialize_def readContent_def readFileSync_def
          sampleService_def sampleWorld_def sampleRuntime_def noFaults_def existsSync_def
          unlinkSync_def parseHistory_sampleText sampleText_not_empty)
qed

text \<open>
  C6 (load of missing or corrupt data, delete then load), amended. Once the storage
  service has initialised, \<open>loadConversationHistory\<close> resolves, and it resolves to the
  empty sequence when the backend in use holds nothing for the identifier, when the
  read throws, or when the stored text is empty or does not parse. After a
  \<open>deleteConversationHistory\<close> that returned and whose delete operation
  (\<^verbatim>\<open>unlinkSync\<close>, \<^verbatim>\<open>deleteIfExists\<close>) did not throw, the load yields the empty sequence.
\<close>

theorem C6_load_empty:
  "(initialize rt ev f svc w = (Inr (), svc1, w1) \<longrightarrow>
      (\<exists>h. fst (loadConversationHistory rt ev f cid svc w) = Inr h)
      \<and> (storedContent rt cid svc1 w1 = None \<or> readThrows f svc1
           \<or> (\<exists>c. storedContent rt cid svc1 w1 = Some c
                    \<and> (c = [] \<or> (\<exists>e. JSON_parse rt c = Inl e)))
          \<longrightarrow> fst (loadConversationHistory rt ev f cid svc w) = Inr []))
   \<and> (fst (deleteThenLoad rt ev fd fl cid svc w) = Inr ()
        \<and> \<not> unlink_throws fd \<and> \<not> delete_throws fd
       \<longrightarrow> snd (deleteThenLoad rt ev fd fl cid svc w) = Inr [])"
proof (intro conjI impI)
  assume "initialize rt ev f svc w = (Inr (), svc1, w1)"
  then show "\<exists>h. fst (loadConversationHistory rt ev f cid svc w) = Inr h"
    by (rule load_resolves)
next
  assume "initialize rt ev f svc w = (Inr (), svc1, w1)"
    and "storedContent rt cid svc1 w1 = None \<or> readThrows f svc1
         \<or> (\<exists>c. storedContent rt cid svc1 w1 = Some c
                  \<and> (c = [] \<or> (\<exists>e. JSON_parse rt c = Inl e)))"
  then show "fst (loadConversationHistory rt ev f cid svc w) = Inr []"
    by (rule load_empty_cases)
next
  assume a: "fst (deleteThenLoad rt ev fd fl cid svc w) = Inr ()
             \<and> \<not> unlink_throws fd \<and> \<not> delete_throws fd"
  obtain r svc2 w2 where d: "deleteConversationHistory rt ev fd cid svc w = (r, svc2, w2)"
    by (cases "deleteConversationHistory rt ev fd cid svc w") auto
  with a have r: "r = Inr ()" by (simp add: deleteThenLoad_def)
  from delete_result [OF d [unfolded r]] a
  have i: "initialized svc2"
    and s: "storedContent rt cid svc2 w2 = None
            \<or> (\<not> useLocalStorage svc2 \<and> \<not> containerClient svc2)"
    by simp_all
  from i have i2: "initialize rt ev fl svc2 w2 = (Inr (), svc2, w2)"
    by (rule initialize_again)
  have "fst (loadConversationHistory rt ev fl cid svc2 w2) = Inr []"
  proof (cases "storedContent rt cid svc2 w2 = None")
    case True
    then show ?thesis using load_empty_cases [OF i2] by blast
  next
    case False
    with s have "\<exists>e. readContent rt fl cid svc2 w2 = Inl e"
      by (simp add: readContent_null_client)
    then show ?thesis
      unfolding load_result [OF i2] by auto
  qed
  with d show "snd (deleteThenLoad rt ev fd fl cid svc w) = Inr []"
    by (simp add: deleteThenLoad_def)
qed

theorem C6_load_empty_witness:
  "initialize sampleRuntime sampleEnv noFaults sampleService emptyWorld
     = (Inr (), sampleService\<lparr>initialized := True\<rparr>, emptyWorld)
   \<and> storedContent sampleRuntime ''c1'' (sampleService\<lparr>initialized := True\<rparr>) emptyWorld = None
   \<and> fst (loadConversationHistory sampleRuntime sampleEnv noFaults ''c1''
            sampleService emptyWorld) = Inr []
   \<and> storedContent sampleRuntime ''c1'' sampleService sampleWorld = Some sampleText
   \<and> deleteThenLoad sampleRuntime sampleEnv noFaults noFaults ''c1'' sampleService sampleWorld
      = (Inr (), Inr [])"
proof -
  have i: "initialize sampleRuntime sampleEnv noFaults sampleService emptyWorld
           = (Inr (), sampleService\<lparr>initialized := True\<rparr>, emptyWorld)"
    by (simp add: initialize_def sampleService_def)
  have n: "storedContent sampleRuntime ''c1'' (sampleService\<lparr>initialized := True\<rparr>) emptyWorld
           = None"
    by (simp add: storedContent_def sampleService_def emptyWorld_def)
  have p: "storedContent sampleRuntime ''c1'' sampleService sampleWorld = Some sampleText"
    by (simp add: storedContent_def sampleService_def sampleWorld_def sampleRuntime_def)
  have d: "fst (deleteThenLoad sampleRuntime sampleEnv noFaults noFaults ''c1''
             sampleService sampleWorld) = Inr ()"
    by (simp add: deleteThenLoad_def deleteConversationHistory_def initialize_def
          sampleService_def sampleWorld_def sampleRuntime_def noFaults_def existsSync_def
          unlinkSync_def split: prod.splits)
  have f: "\<not> unlink_throws noFaults \<and> \<not> delete_throws noFaults"
    by (simp add: noFaults_def)
  from C6_load_empty [where rt = sampleRuntime and ev = sampleEnv and f = noFaults
         and svc = sampleService and w = emptyWorld
         and ?svc1.0 = "sampleService\<lparr>initialized := True\<rparr>" and ?w1.0 = emptyWorld
         and cid = "''c1''"] i n
  have a: "fst (loadConversationHistory sampleRuntime sampleEnv noFaults ''c1''
            sampleService emptyWorld) = Inr []"
    by simp
  from C6_load_empty [where rt = sampleRuntime and ev = sampleEnv and fd = noFaults
         and fl = noFaults and svc = sampleService and w = sampleWorld
         and cid = "''c1''"] d f
  have b: "snd (deleteThenLoad sampleRuntime sampleEnv noFaults noFaults ''c1''
            sampleService sampleWorld) = Inr []"
    by simp
  from d b have "deleteThenLoad sampleRuntime sampleEnv noFaults noFaults ''c1''
            sampleService sampleWorld = (Inr (), Inr [])"
    by (simp add: prod_eq_iff)
  with i n a p show ?thesis by simp
qed

section \<open>Claims about the conversation manager\<close>

text \<open>
  C4 (a failed model call ends the turn). When the message is not the reset command
  and the model call throws on the request of the turn, the handler returns normally;
  the user receives the typing indicator and then the fixed apology, whatever the
  error; the histories kept in memory are those from before the turn; and the files
  and blobs of the history store are those from before the turn.
\<close>

theorem C4_model_failure_terminal:
  assumes "toLowerCase txt \<noteq> ''/restart''"
    and "formattedDate t = Inr date"
    and "responses_create t
           (requestMessages (systemMessageOf date (instructions t))
              (fst (restoreHistory t cid b)) txt) = Inl error"
  shows "\<exists>b'. onMessage t cid txt b = (Inr (), b')
           \<and> sent b' = sent b @ [Typing, Text apology]
           \<and> memory b' = memory b
           \<and> files (outside b') = files (outside b)
           \<and> blobs (outside b') = blobs (outside b)"
proof -
  obtain h svc w where r: "restoreHistory t cid b = (h, svc, w)"
    by (cases "restoreHistory t cid b") auto
  let ?b1 = "b\<lparr>storage := svc, outside := w, sent := sent b @ [Typing]\<rparr>"
  from assms(2,3) r have "\<exists>e. tryBlock t cid txt h ?b1 = (Inl e, ?b1)"
    by (auto simp: tryBlock_def Let_def split: sum.splits option.splits)
  then obtain e where "tryBlock t cid txt h ?b1 = (Inl e, ?b1)" ..
  with assms(1) r have "onMessage t cid txt b
      = (Inr (), ?b1\<lparr>sent := sent ?b1 @ [Text apology]\<rparr>)"
    by (simp add: onMessage_def Let_def)
  with restoreHistory_frame [OF r] show ?thesis by simp
qed

theorem C4_model_failure_terminal_witness:
  "toLowerCase ''What is the standard deduction?'' \<noteq> ''/restart''
   \<and> formattedDate failingTurn = Inr ''Monday, January 6, 2025 at 9:00 AM EST''
   \<and> fst (restoreHistory failingTurn ''c1'' sampleBot) = sampleHistory
   \<and> onMessage failingTurn ''c1'' ''What is the standard deduction?'' sampleBot
      = (Inr (),
         sampleBot\<lparr>storage := sampleService\<lparr>initialized := True\<rparr>,
                   sent := [Typing, Text apology]\<rparr>)"
proof -
  have a: "toLowerCase ''What is the standard deduction?'' \<noteq> ''/restart''"
    by (simp add: toLowerCase_def)
  have d: "formattedDate failingTurn = Inr ''Monday, January 6, 2025 at 9:00 AM EST''"
    by (simp add: failingTurn_def)
  have m: "responses_create failingTurn
             (requestMessages
                (systemMessageOf ''Monday, January 6, 2025 at 9:00 AM EST''
                   (instructions failingTurn))
                (fst (restoreHistory failingTurn ''c1'' sampleBot))
                ''What is the standard deduction?'')
           = Inl (Error ''503 Service Unavailable'')"
    by (simp add: failingTurn_def)
  have r: "restoreHistory failingTurn ''c1'' sampleBot
           = (sampleHistory, sampleService\<lparr>initialized := True\<rparr>, sampleWorld)"
    using sampleHistory_length
    by (simp add: restoreHistory_def loadConversationHistory_def initialize_def
          readContent_def readFileSync_def existsSync_def failingTurn_def sampleBot_def
          sampleService_def sampleWorld_def sampleRuntime_def sampleEnv_def noFaults_def
          parseHistory_sampleText sampleText_not_empty)
  from C4_model_failure_terminal [OF a d m] obtain b' where
    b: "onMessage failingTurn ''c1'' ''What is the standard deduction?'' sampleBot
        = (Inr (), b')"
       "sent b' = sent sampleBot @ [Typing, Text apology]"
       "memory b' = memory sampleBot"
    by blast
  have "onMessage failingTurn ''c1'' ''What is the standard deduction?'' sampleBot
      = (Inr (),
         sampleBot\<lparr>storage := sampleService\<lparr>initialized := True\<rparr>,
                   sent := [Typing, Text apology]\<rparr>)"
    using r by (simp add: onMessage_def tryBlock_def toLowerCase_def failingTurn_def
          sampleBot_def Let_def requestMessages_def countedTexts_def systemTurn_def
          sampleHistory_def userTurn_def assistantTurn_def)
  with a d r b show ?thesis by simp
qed

end
